theory Spec2Isabelle
  imports Complex_Main "HOL-Library.Multiset"
begin

section \<open>Data model (src/types/index.ts)\<close>

text \<open>
  JavaScript numbers are modelled as ideal reals: every arithmetic expression of the
  source is written down with the source's operators and operand order, and rounding of
  IEEE doubles is not modelled.  Where the source can divide by zero the model says so
  explicitly.  Identifiers and note names are strings.
\<close>

datatype curve = Linear | Exponential | Step

record AutomationPoint =
  pt_id :: string
  pt_time :: real
  pt_value :: real
  pt_curve :: curve

datatype AutomationTarget = Volume | Pan | Mute | EffectWet | EffectParam | Tempo

record AutomationLane =
  lane_id :: string
  lane_targetTrackId :: string
  lane_targetParam :: AutomationTarget
  lane_targetEffectId :: "string option"
  lane_targetEffectParam :: "string option"
  lane_points :: "AutomationPoint list"
  lane_enabled :: bool
  lane_color :: string

section \<open>Time base\<close>

text \<open>
  \<^verbatim>\<open>const beatsToSeconds = (beats: number) => (60 / bpm) * beats\<close>
  is declared, with the same body, inside \<^verbatim>\<open>schedulePlaylist\<close> and inside
  \<^verbatim>\<open>scheduleAutomation\<close>; the tempo is the enclosing function's \<^verbatim>\<open>bpm\<close>.
\<close>

definition beatsToSeconds :: "real \<Rightarrow> real \<Rightarrow> real" where
  "beatsToSeconds bpm beats = (60 / bpm) * beats"

text \<open>
  The source has no function called \<^verbatim>\<open>secondsToBeats\<close>; the conversion from seconds
  to beats is written inline in the store's \<^verbatim>\<open>addAudioClipFromSample\<close>:
  \<^verbatim>\<open>const durationInBeats = (durationInSeconds / 60) * bpm\<close>.
\<close>

definition durationInBeats :: "real \<Rightarrow> real \<Rightarrow> real" where
  "durationInBeats bpm durationInSeconds = (durationInSeconds / 60) * bpm"

section \<open>Automation interpolator (AudioEngine.interpolateAutomation)\<close>

text \<open>
  The search loop
  \<^verbatim>\<open>for (let i = 0; i < points.length - 1; i++) { if (...) { ...; break } }\<close>
  with the pair \<^verbatim>\<open>(startPoint, endPoint)\<close> as its state; the pair keeps its initial
  value when no segment contains the time.
\<close>

function segment_loop ::
  "AutomationPoint list \<Rightarrow> real \<Rightarrow> nat \<Rightarrow> AutomationPoint \<times> AutomationPoint
     \<Rightarrow> AutomationPoint \<times> AutomationPoint" where
  "segment_loop points time i se =
     (if i < length points - 1
      then (if pt_time (points ! i) \<le> time \<and> time < pt_time (points ! (i + 1))
            then (points ! i, points ! (i + 1))
            else segment_loop points time (i + 1) se)
      else se)"
  by pat_completeness auto
termination
  by (relation "measure (\<lambda>(points, time, i, se). length points - i)") auto

declare segment_loop.simps [simp del]

text \<open>
  A JavaScript division by zero gives \<^verbatim>\<open>NaN\<close> or an infinity, and every value the
  linear and exponential branches compute from it is again not a finite number; the
  model returns \<open>None\<close> for that, and \<open>Some v\<close> for a finite result \<open>v\<close>.
\<close>

definition finite_quotient :: "real \<Rightarrow> real \<Rightarrow> real option" where
  "finite_quotient denominator v = (if denominator = 0 then None else Some v)"

definition interpolateAutomation :: "AutomationPoint list \<Rightarrow> real \<Rightarrow> real option" where
  "interpolateAutomation points time =
     (if length points = 0 then Some 0.5
      else if length points = 1 then Some (pt_value (points ! 0))
      else if time \<le> pt_time (points ! 0) then Some (pt_value (points ! 0))
      else if pt_time (points ! (length points - 1)) \<le> time
        then Some (pt_value (points ! (length points - 1)))
      else
        (let (startPoint, endPoint) = segment_loop points time 0 (points ! 0, points ! 1);
             t = (time - pt_time startPoint) / (pt_time endPoint - pt_time startPoint)
         in case pt_curve startPoint of
              Step \<Rightarrow> Some (pt_value startPoint)
            | Exponential \<Rightarrow>
                finite_quotient (pt_time endPoint - pt_time startPoint)
                  (pt_value startPoint + (pt_value endPoint - pt_value startPoint) * (t * t))
            | Linear \<Rightarrow>
                finite_quotient (pt_time endPoint - pt_time startPoint)
                  (pt_value startPoint + (pt_value endPoint - pt_value startPoint) * t)))"

definition getAutomationValueAtTime :: "AutomationLane \<Rightarrow> real \<Rightarrow> real option" where
  "getAutomationValueAtTime lane time = interpolateAutomation (lane_points lane) time"

text \<open>A lane used to exercise every branch of the interpolator.\<close>

definition example_points :: "AutomationPoint list" where
  "example_points =
     [\<lparr>pt_id = ''a'', pt_time = 0, pt_value = 0.2, pt_curve = Linear\<rparr>,
      \<lparr>pt_id = ''b'', pt_time = 4, pt_value = 0.8, pt_curve = Step\<rparr>,
      \<lparr>pt_id = ''c'', pt_time = 8, pt_value = 0, pt_curve = Exponential\<rparr>,
      \<lparr>pt_id = ''d'', pt_time = 10, pt_value = 1, pt_curve = Linear\<rparr>]"

definition example_lane :: AutomationLane where
  "example_lane =
     \<lparr>lane_id = ''lane'', lane_targetTrackId = ''t1'', lane_targetParam = Volume,
      lane_targetEffectId = None, lane_targetEffectParam = None,
      lane_points = example_points, lane_enabled = True, lane_color = ''#ff6b6b''\<rparr>"


section \<open>Project entities (src/types/index.ts)\<close>

record MidiNote =
  mn_id :: string
  mn_note :: string
  mn_startTime :: real
  mn_duration :: real
  mn_velocity :: real

record Pattern =
  pat_id :: string
  pat_name :: string
  pat_color :: string
  pat_length :: real
  pat_notes :: "MidiNote list"
  pat_instrumentId :: string

record Clip =
  clip_id :: string
  clip_patternId :: "string option"
  clip_audioBufferId :: "string option"
  clip_startTime :: real
  clip_duration :: real
  clip_offset :: real
  clip_color :: string
  clip_name :: string

datatype TrackType = AudioTrack | MidiTrack | AutomationTrack

record Track =
  track_id :: string
  track_name :: string
  track_type :: TrackType
  track_color :: string
  track_volume :: real
  track_pan :: real
  track_mute :: bool
  track_solo :: bool
  track_armed :: bool
  track_clips :: "Clip list"
  track_effectIds :: "string list"
  track_instrumentId :: "string option"
  track_automationLanes :: "AutomationLane list option"

datatype InstrumentType = Synth | Sampler | Drumkit

text \<open>The untyped \<^verbatim>\<open>settings\<close> bags of instruments and effects are not read by any
  function modelled here and are left out of the records.\<close>

record Instrument =
  inst_id :: string
  inst_name :: string
  inst_type :: InstrumentType

record Effect =
  effect_id :: string
  effect_name :: string
  effect_type :: string
  effect_enabled :: bool
  effect_wet :: real

record Project =
  project_id :: string
  project_name :: string
  project_bpm :: real
  project_timeSignature :: "nat \<times> nat"
  project_tracks :: "Track list"
  project_patterns :: "Pattern list"
  project_instruments :: "Instrument list"
  project_effects :: "Effect list"
  project_masterVolume :: real
  project_automationLanes :: "AutomationLane list"

record TransportState =
  isPlaying :: bool
  isRecording :: bool
  currentBeat :: real
  loopStart :: real
  loopEnd :: real
  loopEnabled :: bool

record StepSequencerStep =
  step_active :: bool
  step_velocity :: real
  step_note :: string
  step_roll :: "nat option"

record StepSequencerRow =
  row_id :: string
  row_name :: string
  row_note :: string
  row_steps :: "StepSequencerStep list"

record StepSequencerPattern =
  ssp_id :: string
  ssp_name :: string
  ssp_steps :: nat
  ssp_rows :: "StepSequencerRow list"
  ssp_instrumentId :: string
  ssp_swing :: real

section \<open>The audio engine's state\<close>

text \<open>
  Objects of the synthesis library (synths, channels, decoded buffers) are opaque
  handles.  The library's transport is modelled by what the engine uses of it: a playback
  state, a position, and a timeline of scheduled callbacks with the identifiers that
  \<^verbatim>\<open>Tone.Transport.schedule\<close> hands out (a counter), \<^verbatim>\<open>clear(id)\<close> removing one
  callback and \<^verbatim>\<open>cancel()\<close> all of them; \<^verbatim>\<open>start()\<close> and \<^verbatim>\<open>pause()\<close> change the
  playback state and keep the position, \<^verbatim>\<open>stop()\<close> returns it to the origin.  The
  transport belongs to the library, not to the repository: these definitions state the
  behaviour of it that the engine relies on.  A scheduled callback is represented by the
  values its closure captures.
\<close>

type_synonym handle = nat

datatype tone_time = Seconds real | BarsBeatsSixteenths real real real

datatype callback =
    TriggerAttackRelease handle string tone_time real
  | ParamSet AutomationTarget real "handle option" "string option"

record TimelineEvent =
  te_id :: nat
  te_time :: tone_time
  te_callback :: callback

datatype PlaybackState = Started | Paused | Stopped

record ToneTransport =
  tt_state :: PlaybackState
  tt_position :: tone_time
  tt_timeline :: "TimelineEvent list"
  tt_nextId :: nat

record StepEvent =
  se_time :: real
  se_note :: string
  se_velocity :: real

record StepPart =
  sp_instrument :: handle
  sp_events :: "StepEvent list"
  sp_loop :: bool
  sp_loopEnd :: real
  sp_start :: real

record ClipNoteEvent =
  cne_time :: real
  cne_note :: string
  cne_duration :: real
  cne_velocity :: real

record PlaylistPart =
  pp_instrument :: handle
  pp_events :: "ClipNoteEvent list"
  pp_start :: real

record Player =
  pl_buffer :: handle
  pl_channel :: handle
  pl_start :: real

record AudioEngine =
  instruments :: "string \<rightharpoonup> handle"
  trackChannels :: "string \<rightharpoonup> handle"
  audioBuffers :: "string \<rightharpoonup> handle"
  audioPlayers :: "Player list"
  stepSequencerPart :: "StepPart option"
  scheduledEventIds :: "nat list"
  playlistParts :: "PlaylistPart list"
  automationEventIds :: "nat list"
  toneTransport :: ToneTransport

subsection \<open>The library transport\<close>

definition transport_schedule :: "callback \<Rightarrow> tone_time \<Rightarrow> ToneTransport \<Rightarrow> nat \<times> ToneTransport" where
  "transport_schedule cb time tt =
     (tt_nextId tt,
      tt\<lparr>tt_timeline := tt_timeline tt @ [\<lparr>te_id = tt_nextId tt, te_time = time, te_callback = cb\<rparr>],
         tt_nextId := tt_nextId tt + 1\<rparr>)"

definition transport_clear :: "nat \<Rightarrow> ToneTransport \<Rightarrow> ToneTransport" where
  "transport_clear eventId tt = tt\<lparr>tt_timeline := filter (\<lambda>e. te_id e \<noteq> eventId) (tt_timeline tt)\<rparr>"

definition transport_cancel :: "ToneTransport \<Rightarrow> ToneTransport" where
  "transport_cancel tt = tt\<lparr>tt_timeline := []\<rparr>"

definition transport_start :: "ToneTransport \<Rightarrow> ToneTransport" where
  "transport_start tt = tt\<lparr>tt_state := Started\<rparr>"

definition transport_pause :: "ToneTransport \<Rightarrow> ToneTransport" where
  "transport_pause tt = (if tt_state tt = Started then tt\<lparr>tt_state := Paused\<rparr> else tt)"

definition transport_stop :: "ToneTransport \<Rightarrow> ToneTransport" where
  "transport_stop tt = tt\<lparr>tt_state := Stopped, tt_position := Seconds 0\<rparr>"

subsection \<open>Transport control of the engine\<close>

definition engine_play :: "AudioEngine \<Rightarrow> AudioEngine" where
  "engine_play eng = eng\<lparr>toneTransport := transport_start (toneTransport eng)\<rparr>"

definition engine_pause :: "AudioEngine \<Rightarrow> AudioEngine" where
  "engine_pause eng = eng\<lparr>toneTransport := transport_pause (toneTransport eng)\<rparr>"

definition engine_stop :: "AudioEngine \<Rightarrow> AudioEngine" where
  "engine_stop eng =
     eng\<lparr>toneTransport := (transport_stop (toneTransport eng))\<lparr>tt_position := Seconds 0\<rparr>\<rparr>"

definition engine_removeInstrument :: "string \<Rightarrow> AudioEngine \<Rightarrow> AudioEngine" where
  "engine_removeInstrument instrumentId eng =
     (case instruments eng instrumentId of
        Some instrument \<Rightarrow> eng\<lparr>instruments := (instruments eng)(instrumentId := None)\<rparr>
      | None \<Rightarrow> eng)"

subsection \<open>schedulePattern and clearScheduledEvents\<close>

text \<open>\<^verbatim>\<open>pattern.notes.forEach\<close>, each note scheduling one callback on the transport at
  the musical time \<^verbatim>\<open>`0:${noteTime}:0`\<close>.\<close>

fun schedulePattern_notes ::
  "handle \<Rightarrow> real \<Rightarrow> MidiNote list \<Rightarrow> ToneTransport \<Rightarrow> ToneTransport" where
  "schedulePattern_notes instrument startTime [] tt = tt"
| "schedulePattern_notes instrument startTime (midiNote # rest) tt =
     (let noteTime = startTime + mn_startTime midiNote;
          noteDuration = mn_duration midiNote;
          velocity = mn_velocity midiNote / 127
      in schedulePattern_notes instrument startTime rest
           (snd (transport_schedule
                   (TriggerAttackRelease instrument (mn_note midiNote)
                      (BarsBeatsSixteenths 0 noteDuration 0) velocity)
                   (BarsBeatsSixteenths 0 noteTime 0) tt)))"

definition schedulePattern :: "AudioEngine \<Rightarrow> Pattern \<Rightarrow> real \<Rightarrow> AudioEngine" where
  "schedulePattern eng pattern startTime =
     (case instruments eng (pat_instrumentId pattern) of
        None \<Rightarrow> eng
      | Some instrument \<Rightarrow>
          eng\<lparr>toneTransport :=
                schedulePattern_notes instrument startTime (pat_notes pattern) (toneTransport eng)\<rparr>)"

definition clearScheduledEvents :: "AudioEngine \<Rightarrow> AudioEngine" where
  "clearScheduledEvents eng = eng\<lparr>toneTransport := transport_cancel (toneTransport eng)\<rparr>"

subsection \<open>Step pattern expander (scheduleStepSequencer)\<close>

definition clearStepSequencer :: "AudioEngine \<Rightarrow> AudioEngine" where
  "clearStepSequencer eng =
     eng\<lparr>stepSequencerPart := None,
         toneTransport := fold transport_clear (scheduledEventIds eng) (toneTransport eng),
         scheduledEventIds := []\<rparr>"

text \<open>\<^verbatim>\<open>for (let r = 0; r < rollCount; r++) events.push({...})\<close>\<close>

function roll_loop ::
  "nat \<Rightarrow> nat \<Rightarrow> real \<Rightarrow> real \<Rightarrow> string \<Rightarrow> real \<Rightarrow> StepEvent list \<Rightarrow> StepEvent list" where
  "roll_loop r rollCount baseTime rollDuration note stepVelocity events =
     (if r < rollCount
      then roll_loop (r + 1) rollCount baseTime rollDuration note stepVelocity
             (events @ [\<lparr>se_time = baseTime + real r * rollDuration, se_note = note,
                         se_velocity = stepVelocity / 127\<rparr>])
      else events)"
  by pat_completeness auto
termination
  by (relation "measure (\<lambda>(r, rollCount, baseTime, rollDuration, note, stepVelocity, events).
        rollCount - r)") auto

declare roll_loop.simps [simp del]

text \<open>\<^verbatim>\<open>step.roll || 1\<close>: an absent roll and a roll of 0 both give 1.\<close>

definition roll_or_1 :: "nat option \<Rightarrow> nat" where
  "roll_or_1 roll = (case roll of None \<Rightarrow> 1 | Some r \<Rightarrow> if r = 0 then 1 else r)"

definition step_callback ::
  "real \<Rightarrow> real \<Rightarrow> StepSequencerRow \<Rightarrow> StepSequencerStep \<Rightarrow> nat \<Rightarrow> StepEvent list
     \<Rightarrow> StepEvent list" where
  "step_callback stepDuration swingAmount row step stepIndex events =
     (if step_active step then
        (let isOffbeat = (stepIndex mod 2 = 1);
             swingOffset = (if isOffbeat then stepDuration * swingAmount * 0.5 else 0);
             baseTime = real stepIndex * stepDuration + swingOffset;
             rollCount = roll_or_1 (step_roll step);
             rollDuration = stepDuration / real rollCount
         in roll_loop 0 rollCount baseTime rollDuration (row_note row) (step_velocity step) events)
      else events)"

text \<open>\<^verbatim>\<open>row.steps.forEach((step, stepIndex) => ...)\<close>\<close>

fun steps_forEach ::
  "real \<Rightarrow> real \<Rightarrow> StepSequencerRow \<Rightarrow> StepSequencerStep list \<Rightarrow> nat \<Rightarrow> StepEvent list
     \<Rightarrow> StepEvent list" where
  "steps_forEach stepDuration swingAmount row [] stepIndex events = events"
| "steps_forEach stepDuration swingAmount row (step # rest) stepIndex events =
     steps_forEach stepDuration swingAmount row rest (stepIndex + 1)
       (step_callback stepDuration swingAmount row step stepIndex events)"

text \<open>\<^verbatim>\<open>pattern.rows.forEach((row) => ...)\<close>\<close>

fun rows_forEach ::
  "real \<Rightarrow> real \<Rightarrow> StepSequencerRow list \<Rightarrow> StepEvent list \<Rightarrow> StepEvent list" where
  "rows_forEach stepDuration swingAmount [] events = events"
| "rows_forEach stepDuration swingAmount (row # rest) events =
     rows_forEach stepDuration swingAmount rest
       (steps_forEach stepDuration swingAmount row (row_steps row) 0 events)"

text \<open>\<^verbatim>\<open>pattern.swing || 0\<close> is the swing itself on numbers (0 is the only falsy real).
  The tempo is a divisor: \<^verbatim>\<open>bpm\<close> is a positive number in every project, and the
  theorems about this function assume so.\<close>

definition scheduleStepSequencer ::
  "AudioEngine \<Rightarrow> StepSequencerPattern \<Rightarrow> real \<Rightarrow> AudioEngine" where
  "scheduleStepSequencer eng0 pattern bpm =
     (let eng = clearStepSequencer eng0 in
      case instruments eng (ssp_instrumentId pattern) of
        None \<Rightarrow> eng
      | Some instrument \<Rightarrow>
          (let stepDuration = 60 / bpm / 4;
               swingAmount = (if ssp_swing pattern = 0 then 0 else ssp_swing pattern) / 100;
               events = rows_forEach stepDuration swingAmount (ssp_rows pattern) []
           in eng\<lparr>stepSequencerPart :=
                    Some \<lparr>sp_instrument = instrument, sp_events = events, sp_loop = True,
                          sp_loopEnd = real (ssp_steps pattern) * stepDuration, sp_start = 0\<rparr>\<rparr>))"

subsection \<open>Event compiler (schedulePlaylist)\<close>

definition clearAutomation :: "AudioEngine \<Rightarrow> AudioEngine" where
  "clearAutomation eng =
     eng\<lparr>toneTransport := fold transport_clear (automationEventIds eng) (toneTransport eng),
         automationEventIds := []\<rparr>"

definition clearPlaylist :: "AudioEngine \<Rightarrow> AudioEngine" where
  "clearPlaylist eng = clearAutomation (eng\<lparr>playlistParts := [], audioPlayers := []\<rparr>)"

text \<open>A JavaScript condition on an optional string holds when the string is present and
  not empty; \<^verbatim>\<open>track.instrumentId || ''\<close> is the string, or the empty string.\<close>

definition truthy :: "string option \<Rightarrow> string option" where
  "truthy s = (case s of None \<Rightarrow> None | Some x \<Rightarrow> if x = [] then None else Some x)"

definition or_empty :: "string option \<Rightarrow> string" where
  "or_empty s = (case truthy s of None \<Rightarrow> [] | Some x \<Rightarrow> x)"

text \<open>\<^verbatim>\<open>pattern.notes.forEach((midiNote) => { ...; events.push({...}) })\<close>\<close>

fun notes_forEach :: "real \<Rightarrow> Clip \<Rightarrow> MidiNote list \<Rightarrow> ClipNoteEvent list \<Rightarrow> ClipNoteEvent list" where
  "notes_forEach bpm clip [] events = events"
| "notes_forEach bpm clip (midiNote # rest) events =
     (let noteTime = beatsToSeconds bpm (clip_startTime clip + mn_startTime midiNote)
      in notes_forEach bpm clip rest
           (events @ [\<lparr>cne_time = noteTime, cne_note = mn_note midiNote,
                        cne_duration = beatsToSeconds bpm (mn_duration midiNote),
                        cne_velocity = mn_velocity midiNote / 127\<rparr>]))"

text \<open>The body of \<^verbatim>\<open>track.clips.forEach((clip) => ...)\<close>; the \<^verbatim>\<open>return\<close> on a missing
  pattern or instrument leaves this callback only.\<close>

definition clip_callback ::
  "Pattern list \<Rightarrow> real \<Rightarrow> Track \<Rightarrow> handle option \<Rightarrow> Clip \<Rightarrow> AudioEngine \<Rightarrow> AudioEngine" where
  "clip_callback patterns bpm track channel clip eng =
     (case truthy (clip_audioBufferId clip) of
        Some audioBufferId \<Rightarrow>
          (case (audioBuffers eng audioBufferId, channel) of
             (Some buffer, Some ch) \<Rightarrow>
               eng\<lparr>audioPlayers := audioPlayers eng @
                     [\<lparr>pl_buffer = buffer, pl_channel = ch,
                       pl_start = beatsToSeconds bpm (clip_startTime clip)\<rparr>]\<rparr>
           | _ \<Rightarrow> eng)
      | None \<Rightarrow>
          (case truthy (clip_patternId clip) of
             Some patternId \<Rightarrow>
               (case (find (\<lambda>p. pat_id p = patternId) patterns,
                      instruments eng (or_empty (track_instrumentId track))) of
                  (Some pattern, Some instrument) \<Rightarrow>
                    (let events = notes_forEach bpm clip (pat_notes pattern) []
                     in if length events > 0
                        then eng\<lparr>playlistParts := playlistParts eng @
                                   [\<lparr>pp_instrument = instrument, pp_events = events, pp_start = 0\<rparr>]\<rparr>
                        else eng)
                | _ \<Rightarrow> eng)
           | None \<Rightarrow> eng))"

fun clips_forEach ::
  "Pattern list \<Rightarrow> real \<Rightarrow> Track \<Rightarrow> handle option \<Rightarrow> Clip list \<Rightarrow> AudioEngine \<Rightarrow> AudioEngine" where
  "clips_forEach patterns bpm track channel [] eng = eng"
| "clips_forEach patterns bpm track channel (clip # rest) eng =
     clips_forEach patterns bpm track channel rest
       (clip_callback patterns bpm track channel clip eng)"

definition track_callback :: "Pattern list \<Rightarrow> real \<Rightarrow> Track \<Rightarrow> AudioEngine \<Rightarrow> AudioEngine" where
  "track_callback patterns bpm track eng =
     (if track_mute track then eng
      else (let channel = trackChannels eng (track_id track)
            in clips_forEach patterns bpm track channel (track_clips track) eng))"

fun tracks_forEach :: "Pattern list \<Rightarrow> real \<Rightarrow> Track list \<Rightarrow> AudioEngine \<Rightarrow> AudioEngine" where
  "tracks_forEach patterns bpm [] eng = eng"
| "tracks_forEach patterns bpm (track # rest) eng =
     tracks_forEach patterns bpm rest (track_callback patterns bpm track eng)"

definition schedulePlaylist :: "AudioEngine \<Rightarrow> Track list \<Rightarrow> Pattern list \<Rightarrow> real \<Rightarrow> AudioEngine" where
  "schedulePlaylist eng tracks patterns bpm = tracks_forEach patterns bpm tracks (clearPlaylist eng)"

subsection \<open>Automation scheduling (scheduleAutomation)\<close>

text \<open>\<^verbatim>\<open>lane.points.forEach((point) => { ...; this.automationEventIds.push(eventId) })\<close>\<close>

fun points_forEach ::
  "real \<Rightarrow> AutomationLane \<Rightarrow> handle option \<Rightarrow> AutomationPoint list \<Rightarrow> AudioEngine \<Rightarrow> AudioEngine" where
  "points_forEach bpm lane channel [] eng = eng"
| "points_forEach bpm lane channel (point # rest) eng =
     (let timeInSeconds = beatsToSeconds bpm (pt_time point);
          (eventId, tt) = transport_schedule
             (ParamSet (lane_targetParam lane) (pt_value point) channel (lane_targetEffectId lane))
             (Seconds timeInSeconds) (toneTransport eng)
      in points_forEach bpm lane channel rest
           (eng\<lparr>toneTransport := tt, automationEventIds := automationEventIds eng @ [eventId]\<rparr>))"

definition lane_callback :: "real \<Rightarrow> AutomationLane \<Rightarrow> AudioEngine \<Rightarrow> AudioEngine" where
  "lane_callback bpm lane eng =
     (if \<not> lane_enabled lane \<or> length (lane_points lane) = 0 then eng
      else (let channel = trackChannels eng (lane_targetTrackId lane)
            in if channel = None \<and> lane_targetParam lane \<noteq> Tempo then eng
               else points_forEach bpm lane channel (lane_points lane) eng))"

fun lanes_forEach :: "real \<Rightarrow> AutomationLane list \<Rightarrow> AudioEngine \<Rightarrow> AudioEngine" where
  "lanes_forEach bpm [] eng = eng"
| "lanes_forEach bpm (lane # rest) eng = lanes_forEach bpm rest (lane_callback bpm lane eng)"

definition scheduleAutomation ::
  "AudioEngine \<Rightarrow> AutomationLane list \<Rightarrow> Track list \<Rightarrow> real \<Rightarrow> AudioEngine" where
  "scheduleAutomation eng lanes tracks bpm = lanes_forEach bpm lanes (clearAutomation eng)"

section \<open>The store (useDAWStore)\<close>

text \<open>
  The store's state holds the project and the transport flags; the engine singleton and
  the history manager's stacks, which the actions reach through module-level variables,
  are fields of the same record.  View state, samples and theme are not touched by the
  actions modelled here.  Identifiers from \<^verbatim>\<open>uuidv4()\<close> are parameters of the actions.
\<close>

record DAWState =
  project :: Project
  transport :: TransportState
  stepSequencerPatterns :: "StepSequencerPattern list"
  engine :: AudioEngine
  undoStack :: "(Project \<times> StepSequencerPattern list) list"
  redoStack :: "(Project \<times> StepSequencerPattern list) list"

definition maxHistorySize :: nat where
  "maxHistorySize = 50"

definition saveHistory :: "DAWState \<Rightarrow> DAWState" where
  "saveHistory s =
     (let pushed = undoStack s @ [(project s, stepSequencerPatterns s)]
      in s\<lparr>undoStack := (if length pushed > maxHistorySize then tl pushed else pushed),
           redoStack := []\<rparr>)"

text \<open>\<^verbatim>\<open>xs.find(P)\<close> followed by a mutation of the object found changes the first
  element that satisfies \<^verbatim>\<open>P\<close> and nothing when there is none.\<close>

fun update_first :: "('a \<Rightarrow> bool) \<Rightarrow> ('a \<Rightarrow> 'a) \<Rightarrow> 'a list \<Rightarrow> 'a list" where
  "update_first P f [] = []"
| "update_first P f (x # xs) = (if P x then f x # xs else x # update_first P f xs)"

subsection \<open>Transport actions\<close>

definition play :: "DAWState \<Rightarrow> DAWState" where
  "play s =
     (let eng1 = schedulePlaylist (engine s) (project_tracks (project s))
                   (project_patterns (project s)) (project_bpm (project s));
          eng2 = scheduleAutomation eng1 (project_automationLanes (project s))
                   (project_tracks (project s)) (project_bpm (project s));
          eng3 = engine_play eng2
      in s\<lparr>engine := eng3, transport := (transport s)\<lparr>isPlaying := True\<rparr>\<rparr>)"

definition pause :: "DAWState \<Rightarrow> DAWState" where
  "pause s = s\<lparr>engine := engine_pause (engine s), transport := (transport s)\<lparr>isPlaying := False\<rparr>\<rparr>"

definition stop :: "DAWState \<Rightarrow> DAWState" where
  "stop s =
     s\<lparr>engine := clearPlaylist (engine_stop (engine s)),
       transport := (transport s)\<lparr>isPlaying := False, currentBeat := 0\<rparr>\<rparr>"

subsection \<open>Note actions\<close>

text \<open>\<^verbatim>\<open>Partial<MidiNote>\<close>: each field is present or absent; \<^verbatim>\<open>Object.assign\<close> copies
  the fields that are present.\<close>

record MidiNoteUpdates =
  upd_id :: "string option"
  upd_note :: "string option"
  upd_startTime :: "real option"
  upd_duration :: "real option"
  upd_velocity :: "real option"

definition assign_note :: "MidiNote \<Rightarrow> MidiNoteUpdates \<Rightarrow> MidiNote" where
  "assign_note n u =
     \<lparr>mn_id = (case upd_id u of Some v \<Rightarrow> v | None \<Rightarrow> mn_id n),
      mn_note = (case upd_note u of Some v \<Rightarrow> v | None \<Rightarrow> mn_note n),
      mn_startTime = (case upd_startTime u of Some v \<Rightarrow> v | None \<Rightarrow> mn_startTime n),
      mn_duration = (case upd_duration u of Some v \<Rightarrow> v | None \<Rightarrow> mn_duration n),
      mn_velocity = (case upd_velocity u of Some v \<Rightarrow> v | None \<Rightarrow> mn_velocity n)\<rparr>"

text \<open>The note argument of \<^verbatim>\<open>addNote\<close> has every field but the identifier, which the
  action sets: \<^verbatim>\<open>{ ...note, id: uuidv4() }\<close>.\<close>

definition addNote :: "string \<Rightarrow> MidiNote \<Rightarrow> string \<Rightarrow> DAWState \<Rightarrow> DAWState" where
  "addNote patternId newNote uuid s0 =
     (let s = saveHistory s0
      in s\<lparr>project := (project s)\<lparr>project_patterns :=
             update_first (\<lambda>p. pat_id p = patternId)
               (\<lambda>pattern. pattern\<lparr>pat_notes := pat_notes pattern @ [newNote\<lparr>mn_id := uuid\<rparr>]\<rparr>)
               (project_patterns (project s))\<rparr>\<rparr>)"

definition removeNote :: "string \<Rightarrow> string \<Rightarrow> DAWState \<Rightarrow> DAWState" where
  "removeNote patternId noteId s0 =
     (let s = saveHistory s0
      in s\<lparr>project := (project s)\<lparr>project_patterns :=
             update_first (\<lambda>p. pat_id p = patternId)
               (\<lambda>pattern. pattern\<lparr>pat_notes := filter (\<lambda>n. mn_id n \<noteq> noteId) (pat_notes pattern)\<rparr>)
               (project_patterns (project s))\<rparr>\<rparr>)"

definition updateNote :: "string \<Rightarrow> string \<Rightarrow> MidiNoteUpdates \<Rightarrow> DAWState \<Rightarrow> DAWState" where
  "updateNote patternId noteId updates s0 =
     (let s = saveHistory s0
      in s\<lparr>project := (project s)\<lparr>project_patterns :=
             update_first (\<lambda>p. pat_id p = patternId)
               (\<lambda>pattern. pattern\<lparr>pat_notes :=
                   update_first (\<lambda>n. mn_id n = noteId) (\<lambda>n. assign_note n updates)
                     (pat_notes pattern)\<rparr>)
               (project_patterns (project s))\<rparr>\<rparr>)"

subsection \<open>Instrument removal\<close>

definition removeInstrument :: "string \<Rightarrow> DAWState \<Rightarrow> DAWState" where
  "removeInstrument instrumentId s0 =
     (let s = saveHistory s0;
          eng = engine_removeInstrument instrumentId (engine s);
          p = project s
      in s\<lparr>engine := eng,
           project := p\<lparr>
             project_instruments := filter (\<lambda>i. inst_id i \<noteq> instrumentId) (project_instruments p),
             project_patterns := filter (\<lambda>pt. pat_instrumentId pt \<noteq> instrumentId) (project_patterns p),
             project_tracks :=
               map (\<lambda>track. if track_instrumentId track = Some instrumentId
                             then track\<lparr>track_instrumentId := None\<rparr> else track)
                   (project_tracks p)\<rparr>\<rparr>)"

subsection \<open>Automation point actions\<close>

text \<open>\<^verbatim>\<open>lane.points.sort((a, b) => a.time - b.time)\<close>: the sort of the language is stable,
  and on real times the comparator is a consistent order; \<open>sort_key\<close> is the stable
  sort by a key.\<close>

definition sort_points :: "AutomationPoint list \<Rightarrow> AutomationPoint list" where
  "sort_points ps = sort_key pt_time ps"

definition addAutomationPoint ::
  "string \<Rightarrow> real \<Rightarrow> real \<Rightarrow> curve \<Rightarrow> string \<Rightarrow> DAWState \<Rightarrow> DAWState" where
  "addAutomationPoint laneId time val crv uuid s =
     (let point = \<lparr>pt_id = uuid, pt_time = time, pt_value = max 0 (min 1 val), pt_curve = crv\<rparr>
      in s\<lparr>project := (project s)\<lparr>project_automationLanes :=
             update_first (\<lambda>l. lane_id l = laneId)
               (\<lambda>lane. lane\<lparr>lane_points := sort_points (lane_points lane @ [point])\<rparr>)
               (project_automationLanes (project s))\<rparr>\<rparr>)"

record AutomationPointUpdates =
  updp_id :: "string option"
  updp_time :: "real option"
  updp_value :: "real option"
  updp_curve :: "curve option"

definition assign_point :: "AutomationPoint \<Rightarrow> AutomationPointUpdates \<Rightarrow> AutomationPoint" where
  "assign_point p u =
     \<lparr>pt_id = (case updp_id u of Some v \<Rightarrow> v | None \<Rightarrow> pt_id p),
      pt_time = (case updp_time u of Some v \<Rightarrow> v | None \<Rightarrow> pt_time p),
      pt_value = (case updp_value u of Some v \<Rightarrow> v | None \<Rightarrow> pt_value p),
      pt_curve = (case updp_curve u of Some v \<Rightarrow> v | None \<Rightarrow> pt_curve p)\<rparr>"

definition update_point :: "AutomationPointUpdates \<Rightarrow> AutomationPoint \<Rightarrow> AutomationPoint" where
  "update_point updates point0 =
     (let point = assign_point point0 updates
      in if updp_value updates \<noteq> None
         then point\<lparr>pt_value := max 0 (min 1 (pt_value point))\<rparr>
         else point)"

definition updateAutomationPoint ::
  "string \<Rightarrow> string \<Rightarrow> AutomationPointUpdates \<Rightarrow> DAWState \<Rightarrow> DAWState" where
  "updateAutomationPoint laneId pointId updates s =
     s\<lparr>project := (project s)\<lparr>project_automationLanes :=
          update_first (\<lambda>l. lane_id l = laneId)
            (\<lambda>lane. case find (\<lambda>p. pt_id p = pointId) (lane_points lane) of
                       None \<Rightarrow> lane
                     | Some _ \<Rightarrow>
                         lane\<lparr>lane_points :=
                           sort_points (update_first (\<lambda>p. pt_id p = pointId)
                                          (update_point updates) (lane_points lane))\<rparr>)
            (project_automationLanes (project s))\<rparr>\<rparr>"

section \<open>Auxiliary definitions for the statements\<close>

text \<open>The hits one step of a row contributes, as a list.\<close>

definition step_hits :: "real \<Rightarrow> real \<Rightarrow> StepSequencerRow \<Rightarrow> nat \<Rightarrow> StepSequencerStep \<Rightarrow> StepEvent list" where
  "step_hits sd sw row i step =
     (if step_active step then
        map (\<lambda>k. \<lparr>se_time = (real i * sd + (if odd i then sd * sw * 0.5 else 0))
                              + real k * (sd / real (roll_or_1 (step_roll step))),
                   se_note = row_note row, se_velocity = step_velocity step / 127\<rparr>)
            [0..<roll_or_1 (step_roll step)]
      else [])"

text \<open>An engine with two instruments, two track channels and one decoded buffer, and a
  step pattern with swing and a roll.\<close>

definition example_engine :: AudioEngine where
  "example_engine =
     \<lparr>instruments = [''synth1'' \<mapsto> 1, ''synth2'' \<mapsto> 2],
      trackChannels = [''track1'' \<mapsto> 11, ''track2'' \<mapsto> 12],
      audioBuffers = [''buf1'' \<mapsto> 21],
      audioPlayers = [], stepSequencerPart = None, scheduledEventIds = [],
      playlistParts = [], automationEventIds = [],
      toneTransport = \<lparr>tt_state = Stopped, tt_position = Seconds 0, tt_timeline = [],
                        tt_nextId = 0\<rparr>\<rparr>"

definition example_step_pattern :: StepSequencerPattern where
  "example_step_pattern =
     \<lparr>ssp_id = ''sp1'', ssp_name = ''Step Pattern 1'', ssp_steps = 4,
      ssp_rows =
        [\<lparr>row_id = ''r1'', row_name = ''C4'', row_note = ''C4'',
          row_steps =
            [\<lparr>step_active = True, step_velocity = 100, step_note = ''C4'', step_roll = None\<rparr>,
             \<lparr>step_active = True, step_velocity = 127, step_note = ''C4'', step_roll = Some 2\<rparr>,
             \<lparr>step_active = False, step_velocity = 100, step_note = ''C4'', step_roll = None\<rparr>,
             \<lparr>step_active = False, step_velocity = 100, step_note = ''C4'', step_roll = Some 3\<rparr>]\<rparr>],
      ssp_instrumentId = ''synth1'', ssp_swing = 50\<rparr>"

text \<open>
  The solo policy in the spec's words, as a transformation of the track list: when some
  track is soloed, every track that is not soloed counts as muted.
\<close>

definition spec_solo_policy :: "Track list \<Rightarrow> Track list" where
  "spec_solo_policy tracks =
     (if \<exists>t \<in> set tracks. track_solo t
      then map (\<lambda>t. if track_solo t then t else t\<lparr>track_mute := True\<rparr>) tracks
      else tracks)"

text \<open>
  A project for the examples.  The first pattern stores its later note first, as a user
  who enters the note at beat 1 before the note at beat 0 leaves it; the second stores
  its notes in time order.  The second track has a clip whose pattern does not exist.
\<close>

definition example_pattern1 :: Pattern where
  "example_pattern1 =
     \<lparr>pat_id = ''p1'', pat_name = ''Pattern 1'', pat_color = ''#ff6b6b'', pat_length = 16,
      pat_notes =
        [\<lparr>mn_id = ''n1'', mn_note = ''C4'', mn_startTime = 1, mn_duration = 1, mn_velocity = 127\<rparr>,
         \<lparr>mn_id = ''n2'', mn_note = ''C4'', mn_startTime = 0, mn_duration = 1, mn_velocity = 127\<rparr>],
      pat_instrumentId = ''synth1''\<rparr>"

definition example_pattern2 :: Pattern where
  "example_pattern2 =
     \<lparr>pat_id = ''p2'', pat_name = ''Pattern 2'', pat_color = ''#4ecdc4'', pat_length = 16,
      pat_notes =
        [\<lparr>mn_id = ''n3'', mn_note = ''E4'', mn_startTime = 0, mn_duration = 1, mn_velocity = 127\<rparr>,
         \<lparr>mn_id = ''n4'', mn_note = ''E4'', mn_startTime = 1, mn_duration = 1, mn_velocity = 127\<rparr>],
      pat_instrumentId = ''synth2''\<rparr>"

definition example_patterns :: "Pattern list" where
  "example_patterns = [example_pattern1, example_pattern2]"

definition example_clip :: "string \<Rightarrow> string \<Rightarrow> real \<Rightarrow> Clip" where
  "example_clip cid patternId start =
     \<lparr>clip_id = cid, clip_patternId = Some patternId, clip_audioBufferId = None,
      clip_startTime = start, clip_duration = 4, clip_offset = 0, clip_color = ''#ff6b6b'',
      clip_name = ''clip''\<rparr>"

definition example_track1 :: Track where
  "example_track1 =
     \<lparr>track_id = ''track1'', track_name = ''Track 1'', track_type = MidiTrack,
      track_color = ''#ff6b6b'', track_volume = 0.8, track_pan = 0, track_mute = False,
      track_solo = True, track_armed = False, track_clips = [example_clip ''c1'' ''p1'' 0],
      track_effectIds = [], track_instrumentId = Some ''synth1'', track_automationLanes = None\<rparr>"

definition example_track2 :: Track where
  "example_track2 =
     \<lparr>track_id = ''track2'', track_name = ''Track 2'', track_type = MidiTrack,
      track_color = ''#4ecdc4'', track_volume = 0.8, track_pan = 0, track_mute = False,
      track_solo = False, track_armed = False,
      track_clips = [example_clip ''c2'' ''p2'' 4, example_clip ''c3'' ''ghost'' 8],
      track_effectIds = [], track_instrumentId = Some ''synth2'', track_automationLanes = None\<rparr>"

definition example_tracks :: "Track list" where
  "example_tracks = [example_track1, example_track2]"

text \<open>The parts that a schedule build produces for the two tracks at 120 beats per
  minute.\<close>

definition example_part1 :: PlaylistPart where
  "example_part1 =
     \<lparr>pp_instrument = 1,
      pp_events = [\<lparr>cne_time = 1 / 2, cne_note = ''C4'', cne_duration = 1 / 2, cne_velocity = 1\<rparr>,
                   \<lparr>cne_time = 0, cne_note = ''C4'', cne_duration = 1 / 2, cne_velocity = 1\<rparr>],
      pp_start = 0\<rparr>"

definition example_part2 :: PlaylistPart where
  "example_part2 =
     \<lparr>pp_instrument = 2,
      pp_events = [\<lparr>cne_time = 2, cne_note = ''E4'', cne_duration = 1 / 2, cne_velocity = 1\<rparr>,
                   \<lparr>cne_time = 5 / 2, cne_note = ''E4'', cne_duration = 1 / 2, cne_velocity = 1\<rparr>],
      pp_start = 0\<rparr>"

text \<open>A tempo lane whose target track does not exist.\<close>

definition example_tempo_lane :: AutomationLane where
  "example_tempo_lane =
     \<lparr>lane_id = ''lane2'', lane_targetTrackId = ''no-such-track'', lane_targetParam = Tempo,
      lane_targetEffectId = None, lane_targetEffectParam = None,
      lane_points = [\<lparr>pt_id = ''e'', pt_time = 2, pt_value = 0.5, pt_curve = Linear\<rparr>],
      lane_enabled = True, lane_color = ''#45b7d1''\<rparr>"

section \<open>Invariants and the piano roll's note edits\<close>

text \<open>The lane invariant of the data model: points in ascending time order, every value
  in \<open>[0, 1]\<close>.\<close>

definition lane_invariant :: "AutomationLane \<Rightarrow> bool" where
  "lane_invariant lane =
     (sorted (map pt_time (lane_points lane))
      \<and> list_all (\<lambda>p. 0 \<le> pt_value p \<and> pt_value p \<le> 1) (lane_points lane))"

text \<open>The range of a stored note: velocity in \<open>[0, 127]\<close>, positive duration.\<close>

definition note_in_range :: "MidiNote \<Rightarrow> bool" where
  "note_in_range n = (0 \<le> mn_velocity n \<and> mn_velocity n \<le> 127 \<and> 0 < mn_duration n)"

definition notes_in_range :: "DAWState \<Rightarrow> bool" where
  "notes_in_range s =
     list_all (\<lambda>p. list_all note_in_range (pat_notes p)) (project_patterns (project s))"

text \<open>
  The piano roll (src/components/PianoRoll/PianoRoll.tsx) is the caller of the note
  actions.  Of its drag handlers the model keeps the update they pass to
  \<^verbatim>\<open>updateNote\<close>: \<^verbatim>\<open>handleVelocityMouseMove\<close> passes
  \<^verbatim>\<open>{ velocity: Math.round(Math.max(1, Math.min(127, original + deltaY))) }\<close>, and the
  resize branch of \<^verbatim>\<open>handleMouseMove\<close> passes
  \<^verbatim>\<open>{ duration: Math.max(snapBeats, original + deltaDuration) }\<close>.
  \<^verbatim>\<open>Math.round\<close> rounds to the nearest integer, halves upwards.  The width of a beat
  on screen is a divisor of the resize; it is a positive number (40 times the zoom), and
  the theorem about the resize assumes so.
\<close>

definition math_round :: "real \<Rightarrow> real" where
  "math_round x = of_int \<lfloor>x + 1 / 2\<rfloor>"

definition no_updates :: MidiNoteUpdates where
  "no_updates = \<lparr>upd_id = None, upd_note = None, upd_startTime = None, upd_duration = None,
                 upd_velocity = None\<rparr>"

definition handleVelocityMouseMove :: "real \<Rightarrow> real \<Rightarrow> MidiNoteUpdates" where
  "handleVelocityMouseMove originalVelocity deltaY =
     (let newVelocity = max 1 (min 127 (originalVelocity + deltaY))
      in no_updates\<lparr>upd_velocity := Some (math_round newVelocity)\<rparr>)"

definition getSnapBeats :: "string \<Rightarrow> real" where
  "getSnapBeats snapValue =
     (if snapValue = ''1/1'' then 4 else if snapValue = ''1/2'' then 2
      else if snapValue = ''1/4'' then 1 else if snapValue = ''1/8'' then 0.5
      else if snapValue = ''1/16'' then 0.25 else 1)"

definition handleMouseMove_resize :: "string \<Rightarrow> real \<Rightarrow> real \<Rightarrow> real \<Rightarrow> MidiNoteUpdates" where
  "handleMouseMove_resize snapValue beatWidth originalDuration deltaX =
     (let snapBeats = getSnapBeats snapValue;
          deltaDuration = math_round ((deltaX / beatWidth) / snapBeats) * snapBeats;
          newDuration = max snapBeats (originalDuration + deltaDuration)
      in no_updates\<lparr>upd_duration := Some newDuration\<rparr>)"

text \<open>A store state over the example project, a note outside the range and one inside
  it, and the state reached by starting playback, adding a note and pausing.\<close>

definition example_project :: Project where
  "example_project =
     \<lparr>project_id = ''project'', project_name = ''Untitled Project'', project_bpm = 120,
      project_timeSignature = (4, 4), project_tracks = example_tracks,
      project_patterns = example_patterns,
      project_instruments =
        [\<lparr>inst_id = ''synth1'', inst_name = ''Synth 1'', inst_type = Synth\<rparr>,
         \<lparr>inst_id = ''synth2'', inst_name = ''Synth 2'', inst_type = Synth\<rparr>],
      project_effects = [], project_masterVolume = 0.8,
      project_automationLanes = [example_lane, example_tempo_lane]\<rparr>"

definition example_state :: DAWState where
  "example_state =
     \<lparr>project = example_project,
      transport = \<lparr>isPlaying = False, isRecording = False, currentBeat = 0, loopStart = 0,
                   loopEnd = 16, loopEnabled = False\<rparr>,
      stepSequencerPatterns = [], engine = example_engine, undoStack = [], redoStack = []\<rparr>"

definition example_loud_note :: MidiNote where
  "example_loud_note =
     \<lparr>mn_id = [], mn_note = ''G4'', mn_startTime = 2, mn_duration = 0, mn_velocity = 200\<rparr>"

definition example_soft_note :: MidiNote where
  "example_soft_note =
     \<lparr>mn_id = [], mn_note = ''G4'', mn_startTime = 2, mn_duration = 0.25, mn_velocity = 100\<rparr>"

definition example_paused_state :: DAWState where
  "example_paused_state = pause (addNote ''p2'' example_soft_note ''n9'' (play example_state))"

text \<open>What a playlist build reads of the engine and what it writes.\<close>

definition sched_view ::
  "AudioEngine \<Rightarrow> (string \<rightharpoonup> handle) \<times> (string \<rightharpoonup> handle) \<times> (string \<rightharpoonup> handle)
      \<times> PlaylistPart list \<times> Player list" where
  "sched_view e = (instruments e, trackChannels e, audioBuffers e, playlistParts e, audioPlayers e)"

text \<open>
  The parameter-set events of the lanes as the spec describes them: a lane that is
  enabled, has points, and targets a track with a channel or the tempo contributes one
  event per point, at the point's time in seconds, in the order of its points; any other
  lane contributes none.  \<open>number_events\<close> gives a list of such events consecutive
  identifiers from a first one.
\<close>

definition lane_param_sets ::
  "(string \<rightharpoonup> handle) \<Rightarrow> real \<Rightarrow> AutomationLane \<Rightarrow> (tone_time \<times> callback) list" where
  "lane_param_sets channels bpm lane =
     (if lane_enabled lane \<and> lane_points lane \<noteq> []
         \<and> (channels (lane_targetTrackId lane) \<noteq> None \<or> lane_targetParam lane = Tempo)
      then map (\<lambda>point. (Seconds (beatsToSeconds bpm (pt_time point)),
                         ParamSet (lane_targetParam lane) (pt_value point)
                           (channels (lane_targetTrackId lane)) (lane_targetEffectId lane)))
               (lane_points lane)
      else [])"

definition automation_param_sets ::
  "(string \<rightharpoonup> handle) \<Rightarrow> real \<Rightarrow> AutomationLane list \<Rightarrow> (tone_time \<times> callback) list" where
  "automation_param_sets channels bpm lanes = concat (map (lane_param_sets channels bpm) lanes)"

definition number_events :: "nat \<Rightarrow> (tone_time \<times> callback) list \<Rightarrow> TimelineEvent list" where
  "number_events n xs =
     map (\<lambda>(i, time, cb). \<lparr>te_id = i, te_time = time, te_callback = cb\<rparr>) (List.enumerate n xs)"

section \<open>Time base: conversion and round trip\<close>

text \<open>
  Claim C3.  For every tempo \<open>bpm > 0\<close> and every \<open>beats \<ge> 0\<close>, the conversion used by
  schedule building equals \<open>beats * 60 / bpm\<close>, and converting the resulting seconds back
  to beats at the same tempo (the store's inline seconds-to-beats conversion) returns
  \<open>beats\<close>.
\<close>

theorem beatsToSeconds_round_trip:
  assumes "0 < bpm" and "0 \<le> beats"
  shows "beatsToSeconds bpm beats = beats * 60 / bpm
       \<and> durationInBeats bpm (beatsToSeconds bpm beats) = beats"
  using assms by (simp add: beatsToSeconds_def durationInBeats_def)

theorem beatsToSeconds_round_trip_witness:
  "(0::real) < 120 \<and> (0::real) \<le> 3 \<and> beatsToSeconds 120 3 = 3 / 2
     \<and> durationInBeats 120 (beatsToSeconds 120 3) = 3"
  using beatsToSeconds_round_trip [of 120 3] by simp

section \<open>Automation interpolator: the piecewise contract\<close>

lemma segment_loop_found:
  assumes "sorted (map pt_time ps)" "j \<le> i" "Suc i < length ps"
    "pt_time (ps ! i) < t" "t < pt_time (ps ! Suc i)"
  shows "segment_loop ps t j se = (ps ! i, ps ! Suc i)"
  using assms
proof (induction ps t j se rule: segment_loop.induct)
  case (1 points time j se)
  have jl: "j < length points - 1" using 1 by linarith
  show ?case
  proof (cases "j = i")
    case True
    then show ?thesis using 1 jl by (simp add: segment_loop.simps)
  next
    case False
    then have ji: "j < i" using 1 by simp
    have "pt_time (points ! (j + 1)) \<le> pt_time (points ! i)"
      using 1(2) ji 1(4) by (simp add: sorted_iff_nth_mono)
    then have nomatch: "\<not> (pt_time (points ! j) \<le> time \<and> time < pt_time (points ! (j + 1)))"
      using 1(5) by linarith
    have "segment_loop points time j se = segment_loop points time (j + 1) se"
      using jl nomatch by (subst segment_loop.simps) auto
    also have "\<dots> = (points ! i, points ! Suc i)"
      using 1 jl nomatch ji by simp
    finally show ?thesis .
  qed
qed

lemma interpolate_between:
  assumes srt: "sorted (map pt_time ps)" and i: "Suc i < length ps"
    and lo: "pt_time (ps ! i) < t" and hi: "t < pt_time (ps ! Suc i)"
  shows "interpolateAutomation ps t =
      Some (case pt_curve (ps ! i) of
              Linear \<Rightarrow> pt_value (ps ! i) + (pt_value (ps ! Suc i) - pt_value (ps ! i))
                           * ((t - pt_time (ps ! i)) / (pt_time (ps ! Suc i) - pt_time (ps ! i)))
            | Exponential \<Rightarrow> pt_value (ps ! i) + (pt_value (ps ! Suc i) - pt_value (ps ! i))
                           * ((t - pt_time (ps ! i)) / (pt_time (ps ! Suc i) - pt_time (ps ! i)))\<^sup>2
            | Step \<Rightarrow> pt_value (ps ! i))"
proof -
  have first: "pt_time (ps ! 0) \<le> pt_time (ps ! i)"
    using srt i by (simp add: sorted_iff_nth_mono)
  have last: "pt_time (ps ! Suc i) \<le> pt_time (ps ! (length ps - 1))"
    using srt i by (simp add: sorted_iff_nth_mono)
  have seg: "segment_loop ps t 0 (ps ! 0, ps ! Suc 0) = (ps ! i, ps ! Suc i)"
    using segment_loop_found [OF srt _ i lo hi] by simp
  have len: "length ps \<noteq> 0" "length ps \<noteq> 1" using i by auto
  have c1: "\<not> t \<le> pt_time (ps ! 0)" using first lo by linarith
  have c2: "\<not> pt_time (ps ! (length ps - 1)) \<le> t" using last hi by linarith
  have d: "pt_time (ps ! Suc i) - pt_time (ps ! i) \<noteq> 0" using lo hi by linarith
  show ?thesis
    unfolding interpolateAutomation_def
    using len c1 c2 d
    by (simp add: seg finite_quotient_def power2_eq_square Let_def split: curve.split)
qed

lemma interpolate_after:
  assumes srt: "sorted (map pt_time ps)" and ne: "ps \<noteq> []"
    and hi: "pt_time (last ps) < t"
  shows "interpolateAutomation ps t = Some (pt_value (last ps))"
proof -
  have "pt_time (ps ! 0) \<le> pt_time (ps ! (length ps - 1))"
    using srt ne by (simp add: sorted_iff_nth_mono)
  moreover have l: "last ps = ps ! (length ps - 1)" using ne by (simp add: last_conv_nth)
  ultimately have c1: "\<not> t \<le> pt_time (ps ! 0)" using hi by simp
  show ?thesis
    unfolding interpolateAutomation_def using c1 ne hi l
    by (cases ps) (auto)
qed

lemma interpolate_before:
  assumes ne: "ps \<noteq> []" and lo: "t \<le> pt_time (hd ps)"
  shows "interpolateAutomation ps t = Some (pt_value (hd ps))"
  using assms unfolding interpolateAutomation_def by (cases ps) auto

text \<open>
  Claim C1.  For every automation lane and every query time \<open>t\<close>: a lane with no point
  yields 0.5; a lane with one point yields that point's value at every \<open>t\<close>; \<open>t\<close> at or
  before the first point yields the first point's value; and, the lane's points being in
  ascending time order as the data model keeps them, \<open>t\<close> after the last point yields the
  last point's value, and \<open>t\<close> strictly between adjacent points \<open>(t0, v0)\<close> and \<open>(t1, v1)\<close>
  yields, with \<open>frac = (t - t0) / (t1 - t0)\<close>, the value \<open>v0 + (v1 - v0) * frac\<close> when the
  left point's curve is linear, \<open>v0 + (v1 - v0) * frac\<^sup>2\<close> when it is exponential and \<open>v0\<close>
  when it is step: the curve of a segment is the curve tag of its left point.
\<close>

theorem interpolateAutomation_contract:
  "(lane_points lane = [] \<longrightarrow> getAutomationValueAtTime lane t = Some 0.5)
   \<and> (\<forall>p. lane_points lane = [p] \<longrightarrow> getAutomationValueAtTime lane t = Some (pt_value p))
   \<and> (lane_points lane \<noteq> [] \<and> t \<le> pt_time (hd (lane_points lane)) \<longrightarrow>
        getAutomationValueAtTime lane t = Some (pt_value (hd (lane_points lane))))
   \<and> (sorted (map pt_time (lane_points lane))
        \<and> lane_points lane \<noteq> [] \<and> pt_time (last (lane_points lane)) < t \<longrightarrow>
        getAutomationValueAtTime lane t = Some (pt_value (last (lane_points lane))))
   \<and> (\<forall>i. sorted (map pt_time (lane_points lane))
          \<and> Suc i < length (lane_points lane)
          \<and> pt_time (lane_points lane ! i) < t \<and> t < pt_time (lane_points lane ! Suc i) \<longrightarrow>
        getAutomationValueAtTime lane t =
          Some (let t0 = pt_time (lane_points lane ! i); v0 = pt_value (lane_points lane ! i);
                    t1 = pt_time (lane_points lane ! Suc i);
                    v1 = pt_value (lane_points lane ! Suc i);
                    frac = (t - t0) / (t1 - t0)
                in case pt_curve (lane_points lane ! i) of
                     Linear \<Rightarrow> v0 + (v1 - v0) * frac
                   | Exponential \<Rightarrow> v0 + (v1 - v0) * frac\<^sup>2
                   | Step \<Rightarrow> v0))"
proof (intro conjI allI impI)
  assume "lane_points lane = []"
  then show "getAutomationValueAtTime lane t = Some 0.5"
    by (simp add: getAutomationValueAtTime_def interpolateAutomation_def)
next
  fix p assume "lane_points lane = [p]"
  then show "getAutomationValueAtTime lane t = Some (pt_value p)"
    by (simp add: getAutomationValueAtTime_def interpolateAutomation_def)
next
  assume "lane_points lane \<noteq> [] \<and> t \<le> pt_time (hd (lane_points lane))"
  then show "getAutomationValueAtTime lane t = Some (pt_value (hd (lane_points lane)))"
    by (simp add: getAutomationValueAtTime_def interpolate_before)
next
  assume "sorted (map pt_time (lane_points lane))
    \<and> lane_points lane \<noteq> [] \<and> pt_time (last (lane_points lane)) < t"
  then show "getAutomationValueAtTime lane t = Some (pt_value (last (lane_points lane)))"
    by (simp add: getAutomationValueAtTime_def interpolate_after)
next
  fix i
  assume a: "sorted (map pt_time (lane_points lane))
    \<and> Suc i < length (lane_points lane)
    \<and> pt_time (lane_points lane ! i) < t \<and> t < pt_time (lane_points lane ! Suc i)"
  then have srt: "sorted (map pt_time (lane_points lane))" by simp
  from a show "getAutomationValueAtTime lane t =
      Some (let t0 = pt_time (lane_points lane ! i); v0 = pt_value (lane_points lane ! i);
                t1 = pt_time (lane_points lane ! Suc i);
                v1 = pt_value (lane_points lane ! Suc i);
                frac = (t - t0) / (t1 - t0)
            in case pt_curve (lane_points lane ! i) of
                 Linear \<Rightarrow> v0 + (v1 - v0) * frac
               | Exponential \<Rightarrow> v0 + (v1 - v0) * frac\<^sup>2
               | Step \<Rightarrow> v0)"
    using interpolate_between [OF srt, of i t]
    by (simp add: getAutomationValueAtTime_def Let_def)
qed

theorem interpolateAutomation_contract_witness:
  "sorted (map pt_time (lane_points example_lane))
     \<and> getAutomationValueAtTime example_lane (-1) = Some (1 / 5)
     \<and> getAutomationValueAtTime example_lane 2 = Some (1 / 2)
     \<and> getAutomationValueAtTime example_lane 6 = Some (4 / 5)
     \<and> getAutomationValueAtTime example_lane 9 = Some (1 / 4)
     \<and> getAutomationValueAtTime example_lane 11 = Some 1"
proof -
  have s: "sorted (map pt_time (lane_points example_lane))"
    by (simp add: example_lane_def example_points_def)
  note c = interpolateAutomation_contract [of example_lane]
  have pts: "lane_points example_lane = example_points" by (simp add: example_lane_def)
  have a: "getAutomationValueAtTime example_lane (-1) = Some (1 / 5)"
    using c [of "-1"] by (simp add: pts example_points_def)
  have b: "getAutomationValueAtTime example_lane 2 = Some (1 / 2)"
    using c [of 2, THEN conjunct2, THEN conjunct2, THEN conjunct2, THEN conjunct2, THEN spec, of 0] s
    by (simp add: pts example_points_def)
  have d: "getAutomationValueAtTime example_lane 6 = Some (4 / 5)"
    using c [of 6, THEN conjunct2, THEN conjunct2, THEN conjunct2, THEN conjunct2, THEN spec, of 1] s
    by (simp add: pts example_points_def)
  have e: "getAutomationValueAtTime example_lane 9 = Some (1 / 4)"
    using c [of 9, THEN conjunct2, THEN conjunct2, THEN conjunct2, THEN conjunct2, THEN spec, of 2] s
    by (simp add: pts example_points_def power2_eq_square)
  have f: "getAutomationValueAtTime example_lane 11 = Some 1"
    using c [of 11] s by (simp add: pts example_points_def)
  show ?thesis using s a b d e f by simp
qed

section \<open>Step pattern expander: swing and roll timing\<close>

lemma roll_loop_eq:
  "r \<le> n \<Longrightarrow> roll_loop r n baseTime rollDuration nt v events =
     events @ map (\<lambda>k. \<lparr>se_time = baseTime + real k * rollDuration, se_note = nt,
                        se_velocity = v / 127\<rparr>) [r..<n]"
proof (induction r n baseTime rollDuration nt v events rule: roll_loop.induct)
  case (1 r rollCount baseTime rollDuration nt stepVelocity events)
  show ?case
  proof (cases "r < rollCount")
    case True
    then show ?thesis
      using 1 by (subst roll_loop.simps) (simp add: upt_conv_Cons)
  next
    case False
    then show ?thesis using 1 by (subst roll_loop.simps) simp
  qed
qed

lemma step_callback_eq:
  "step_callback sd sw row step i events = events @ step_hits sd sw row i step"
  by (simp add: step_callback_def step_hits_def roll_loop_eq Let_def odd_iff_mod_2_eq_one)

lemma steps_forEach_eq:
  "steps_forEach sd sw row steps i events =
     events @ concat (map (\<lambda>(j, step). step_hits sd sw row j step) (List.enumerate i steps))"
  by (induction steps arbitrary: i events) (simp_all add: step_callback_eq)

lemma rows_forEach_eq:
  "rows_forEach sd sw rows events =
     events @ concat (map (\<lambda>row. concat (map (\<lambda>(j, step). step_hits sd sw row j step)
                                             (List.enumerate 0 (row_steps row)))) rows)"
  by (induction rows arbitrary: events) (simp_all add: steps_forEach_eq)

lemma roll_or_1_valid:
  "(\<forall>r. roll = Some r \<longrightarrow> r \<in> {1, 2, 3, 4}) \<Longrightarrow>
     roll_or_1 roll = (case roll of None \<Rightarrow> 1 | Some r \<Rightarrow> r)"
  by (auto simp: roll_or_1_def split: option.split)

lemma step_hits_valid:
  assumes "\<forall>r. step_roll step = Some r \<longrightarrow> r \<in> {1, 2, 3, 4}"
  shows "step_hits sd (s / 100) row i step =
     (if step_active step then
        map (\<lambda>k. \<lparr>se_time = (if even i then real i * sd else real i * sd + sd * (s / 100) * 0.5)
                              + real k * (sd / real (case step_roll step of None \<Rightarrow> 1 | Some r \<Rightarrow> r)),
                   se_note = row_note row, se_velocity = step_velocity step / 127\<rparr>)
            [0..<(case step_roll step of None \<Rightarrow> 1 | Some r \<Rightarrow> r)]
      else [])"
  using roll_or_1_valid [OF assms] by (simp add: step_hits_def)

text \<open>
  Claim C2.  For a step pattern with swing \<open>s\<close> in \<open>[0, 100]\<close> at tempo \<open>bpm > 0\<close> whose
  instrument exists, with \<open>stepDuration = 60 / bpm / 4\<close>: the part that is scheduled
  holds, row after row and step after step, for every active step at index \<open>i\<close> with roll
  \<open>r\<close> (1 when the step has none) exactly the \<open>r\<close> hits at \<open>baseTime + k * (stepDuration / r)\<close>,
  \<open>k = 0, \<dots>, r - 1\<close>, where \<open>baseTime\<close> is \<open>i * stepDuration\<close> for even \<open>i\<close> and
  \<open>i * stepDuration + stepDuration * (s / 100) * 0.5\<close> for odd \<open>i\<close>; every hit carries the
  row's note and the step's velocity (on the engine's scale, divided by 127); inactive
  steps contribute nothing; and the part loops with period \<open>steps * stepDuration\<close>.
\<close>

theorem scheduleStepSequencer_timing:
  assumes bpm: "0 < bpm"
    and swing: "0 \<le> ssp_swing pattern" "ssp_swing pattern \<le> 100"
    and inst: "instruments eng (ssp_instrumentId pattern) = Some instrument"
    and rolls: "\<forall>row \<in> set (ssp_rows pattern). \<forall>step \<in> set (row_steps row).
                  \<forall>r. step_roll step = Some r \<longrightarrow> r \<in> {1, 2, 3, 4}"
  shows "\<exists>part. stepSequencerPart (scheduleStepSequencer eng pattern bpm) = Some part
       \<and> sp_loop part \<and> sp_start part = 0
       \<and> sp_loopEnd part = real (ssp_steps pattern) * (60 / bpm / 4)
       \<and> sp_events part =
           concat (map (\<lambda>row. concat (map (\<lambda>(i, step).
               if step_active step then
                 map (\<lambda>k. \<lparr>se_time =
                               (if even i then real i * (60 / bpm / 4)
                                else real i * (60 / bpm / 4)
                                       + (60 / bpm / 4) * (ssp_swing pattern / 100) * 0.5)
                               + real k * ((60 / bpm / 4)
                                   / real (case step_roll step of None \<Rightarrow> 1 | Some r \<Rightarrow> r)),
                            se_note = row_note row,
                            se_velocity = step_velocity step / 127\<rparr>)
                     [0..<(case step_roll step of None \<Rightarrow> 1 | Some r \<Rightarrow> r)]
               else [])
             (List.enumerate 0 (row_steps row)))) (ssp_rows pattern))"
proof -
  have inst': "instruments (clearStepSequencer eng) (ssp_instrumentId pattern) = Some instrument"
    using inst by (simp add: clearStepSequencer_def)
  have sw: "(if ssp_swing pattern = 0 then 0 else ssp_swing pattern) / 100 = ssp_swing pattern / 100"
    by simp
  have inner: "\<And>row. row \<in> set (ssp_rows pattern) \<Longrightarrow>
      map (\<lambda>(j, step). step_hits (60 / bpm / 4) (ssp_swing pattern / 100) row j step)
          (List.enumerate 0 (row_steps row))
    = map (\<lambda>(i, step).
               if step_active step then
                 map (\<lambda>k. \<lparr>se_time =
                               (if even i then real i * (60 / bpm / 4)
                                else real i * (60 / bpm / 4)
                                       + (60 / bpm / 4) * (ssp_swing pattern / 100) * 0.5)
                               + real k * ((60 / bpm / 4)
                                   / real (case step_roll step of None \<Rightarrow> 1 | Some r \<Rightarrow> r)),
                            se_note = row_note row,
                            se_velocity = step_velocity step / 127\<rparr>)
                     [0..<(case step_roll step of None \<Rightarrow> 1 | Some r \<Rightarrow> r)]
               else [])
          (List.enumerate 0 (row_steps row))"
  proof -
    fix row assume row: "row \<in> set (ssp_rows pattern)"
    show "?thesis row"
    proof (rule map_cong [OF refl])
      fix x assume x: "x \<in> set (List.enumerate 0 (row_steps row))"
      obtain j step where xeq: "x = (j, step)" by (cases x)
      then have "step \<in> set (row_steps row)" using x by (auto simp: in_set_enumerate_eq)
      then have "\<forall>r. step_roll step = Some r \<longrightarrow> r \<in> {1, 2, 3, 4}" using rolls row by blast
      from step_hits_valid [OF this]
      show "(case x of (j, step) \<Rightarrow> step_hits (60 / bpm / 4) (ssp_swing pattern / 100) row j step)
          = (case x of (i, step) \<Rightarrow>
               if step_active step then
                 map (\<lambda>k. \<lparr>se_time =
                               (if even i then real i * (60 / bpm / 4)
                                else real i * (60 / bpm / 4)
                                       + (60 / bpm / 4) * (ssp_swing pattern / 100) * 0.5)
                               + real k * ((60 / bpm / 4)
                                   / real (case step_roll step of None \<Rightarrow> 1 | Some r \<Rightarrow> r)),
                            se_note = row_note row,
                            se_velocity = step_velocity step / 127\<rparr>)
                     [0..<(case step_roll step of None \<Rightarrow> 1 | Some r \<Rightarrow> r)]
               else [])"
        by (simp add: xeq)
    qed
  qed
  have events: "rows_forEach (60 / bpm / 4) (ssp_swing pattern / 100) (ssp_rows pattern) [] =
      concat (map (\<lambda>row. concat (map (\<lambda>(i, step).
               if step_active step then
                 map (\<lambda>k. \<lparr>se_time =
                               (if even i then real i * (60 / bpm / 4)
                                else real i * (60 / bpm / 4)
                                       + (60 / bpm / 4) * (ssp_swing pattern / 100) * 0.5)
                               + real k * ((60 / bpm / 4)
                                   / real (case step_roll step of None \<Rightarrow> 1 | Some r \<Rightarrow> r)),
                            se_note = row_note row,
                            se_velocity = step_velocity step / 127\<rparr>)
                     [0..<(case step_roll step of None \<Rightarrow> 1 | Some r \<Rightarrow> r)]
               else [])
             (List.enumerate 0 (row_steps row)))) (ssp_rows pattern))"
    unfolding rows_forEach_eq append_Nil
    by (rule arg_cong [where f = concat], rule map_cong [OF refl]) (simp only: inner)
  show ?thesis
    unfolding scheduleStepSequencer_def Let_def inst' option.case sw events
    by simp
qed

theorem scheduleStepSequencer_timing_witness:
  "(0::real) < 120 \<and> 0 \<le> ssp_swing example_step_pattern \<and> ssp_swing example_step_pattern \<le> 100
   \<and> instruments example_engine (ssp_instrumentId example_step_pattern) = Some 1
   \<and> (\<exists>part. stepSequencerPart (scheduleStepSequencer example_engine example_step_pattern 120)
                = Some part
         \<and> sp_loop part \<and> sp_loopEnd part = 1 / 2
         \<and> sp_events part =
             [\<lparr>se_time = 0, se_note = ''C4'', se_velocity = 100 / 127\<rparr>,
              \<lparr>se_time = 5 / 32, se_note = ''C4'', se_velocity = 1\<rparr>,
              \<lparr>se_time = 7 / 32, se_note = ''C4'', se_velocity = 1\<rparr>])"
proof -
  have b: "(0::real) < 120" by simp
  have s: "0 \<le> ssp_swing example_step_pattern" "ssp_swing example_step_pattern \<le> 100"
    by (simp_all add: example_step_pattern_def)
  have i: "instruments example_engine (ssp_instrumentId example_step_pattern) = Some 1"
    by (simp add: example_engine_def example_step_pattern_def)
  have r: "\<forall>row \<in> set (ssp_rows example_step_pattern). \<forall>step \<in> set (row_steps row).
         \<forall>r. step_roll step = Some r \<longrightarrow> r \<in> {1, 2, 3, 4}"
    by (simp add: example_step_pattern_def)
  from scheduleStepSequencer_timing [OF b s i r]
  obtain part where p: "stepSequencerPart (scheduleStepSequencer example_engine example_step_pattern 120) = Some part"
    "sp_loop part" "sp_loopEnd part = real (ssp_steps example_step_pattern) * (60 / 120 / 4)"
    "sp_events part =
           concat (map (\<lambda>row. concat (map (\<lambda>(i, step).
               if step_active step then
                 map (\<lambda>k. \<lparr>se_time =
                               (if even i then real i * (60 / 120 / 4)
                                else real i * (60 / 120 / 4)
                                       + (60 / 120 / 4) * (ssp_swing example_step_pattern / 100) * 0.5)
                               + real k * ((60 / 120 / 4)
                                   / real (case step_roll step of None \<Rightarrow> 1 | Some r \<Rightarrow> r)),
                            se_note = row_note row,
                            se_velocity = step_velocity step / 127\<rparr>)
                     [0..<(case step_roll step of None \<Rightarrow> 1 | Some r \<Rightarrow> r)]
               else [])
             (List.enumerate 0 (row_steps row)))) (ssp_rows example_step_pattern))"
    by blast
  have le: "sp_loopEnd part = 1 / 2" using p(3) by (simp add: example_step_pattern_def)
  have ev: "sp_events part =
             [\<lparr>se_time = 0, se_note = ''C4'', se_velocity = 100 / 127\<rparr>,
              \<lparr>se_time = 5 / 32, se_note = ''C4'', se_velocity = 1\<rparr>,
              \<lparr>se_time = 7 / 32, se_note = ''C4'', se_velocity = 1\<rparr>]"
    unfolding p(4) by (simp add: example_step_pattern_def enumerate_eq_zip upt_rec numeral_2_eq_2)
  show ?thesis using b s i p(1,2) le ev by blast
qed

section \<open>Event compiler: what a schedule build reads and emits\<close>

lemma instruments_clearAutomation [simp]: "instruments (clearAutomation eng) = instruments eng"
  and trackChannels_clearAutomation [simp]: "trackChannels (clearAutomation eng) = trackChannels eng"
  and audioBuffers_clearAutomation [simp]: "audioBuffers (clearAutomation eng) = audioBuffers eng"
  and playlistParts_clearAutomation [simp]: "playlistParts (clearAutomation eng) = playlistParts eng"
  and audioPlayers_clearAutomation [simp]: "audioPlayers (clearAutomation eng) = audioPlayers eng"
  by (simp_all add: clearAutomation_def)

lemma instruments_clearPlaylist [simp]: "instruments (clearPlaylist eng) = instruments eng"
  and trackChannels_clearPlaylist [simp]: "trackChannels (clearPlaylist eng) = trackChannels eng"
  and audioBuffers_clearPlaylist [simp]: "audioBuffers (clearPlaylist eng) = audioBuffers eng"
  and playlistParts_clearPlaylist [simp]: "playlistParts (clearPlaylist eng) = []"
  and audioPlayers_clearPlaylist [simp]: "audioPlayers (clearPlaylist eng) = []"
  by (simp_all add: clearPlaylist_def)

lemma notes_forEach_eq:
  "notes_forEach bpm clip ns events =
     events @ map (\<lambda>midiNote.
        \<lparr>cne_time = beatsToSeconds bpm (clip_startTime clip + mn_startTime midiNote),
         cne_note = mn_note midiNote,
         cne_duration = beatsToSeconds bpm (mn_duration midiNote),
         cne_velocity = mn_velocity midiNote / 127\<rparr>) ns"
  by (induction ns arbitrary: events) (simp_all add: Let_def)

lemma clip_callback_frame [simp]:
  "instruments (clip_callback patterns bpm track channel clip eng) = instruments eng"
  "trackChannels (clip_callback patterns bpm track channel clip eng) = trackChannels eng"
  "audioBuffers (clip_callback patterns bpm track channel clip eng) = audioBuffers eng"
  by (simp_all add: clip_callback_def Let_def split: option.split prod.split)

lemma clips_forEach_frame [simp]:
  "instruments (clips_forEach patterns bpm track channel clips eng) = instruments eng"
  "trackChannels (clips_forEach patterns bpm track channel clips eng) = trackChannels eng"
  "audioBuffers (clips_forEach patterns bpm track channel clips eng) = audioBuffers eng"
  by (induction clips arbitrary: eng) simp_all

lemma track_callback_frame [simp]:
  "instruments (track_callback patterns bpm track eng) = instruments eng"
  "trackChannels (track_callback patterns bpm track eng) = trackChannels eng"
  "audioBuffers (track_callback patterns bpm track eng) = audioBuffers eng"
  by (simp_all add: track_callback_def Let_def)

lemma tracks_forEach_frame [simp]:
  "instruments (tracks_forEach patterns bpm tracks eng) = instruments eng"
  "trackChannels (tracks_forEach patterns bpm tracks eng) = trackChannels eng"
  "audioBuffers (tracks_forEach patterns bpm tracks eng) = audioBuffers eng"
  by (induction tracks arbitrary: eng) simp_all

lemma clips_forEach_append:
  "clips_forEach patterns bpm track channel (cs1 @ cs2) eng =
     clips_forEach patterns bpm track channel cs2 (clips_forEach patterns bpm track channel cs1 eng)"
  by (induction cs1 arbitrary: eng) simp_all

lemma tracks_forEach_append:
  "tracks_forEach patterns bpm (ts1 @ ts2) eng =
     tracks_forEach patterns bpm ts2 (tracks_forEach patterns bpm ts1 eng)"
  by (induction ts1 arbitrary: eng) simp_all

lemma clip_callback_track:
  assumes eq: "track_instrumentId track' = track_instrumentId track"
  shows "clip_callback patterns bpm track' channel clip eng =
   clip_callback patterns bpm track channel clip eng"
  unfolding clip_callback_def eq ..

lemma clips_forEach_track:
  assumes eq: "track_instrumentId track' = track_instrumentId track"
  shows "clips_forEach patterns bpm track' channel clips eng =
   clips_forEach patterns bpm track channel clips eng"
  by (induction clips arbitrary: eng) (simp_all add: clip_callback_track [OF eq])

lemmas example_defs = example_engine_def example_pattern1_def example_pattern2_def
  example_patterns_def example_clip_def example_track1_def example_track2_def example_tracks_def
  example_part1_def example_part2_def

lemmas schedule_defs = schedulePlaylist_def clearPlaylist_def clearAutomation_def
  track_callback_def clip_callback_def truthy_def or_empty_def beatsToSeconds_def

lemma example_schedule_parts:
  "playlistParts (schedulePlaylist example_engine example_tracks example_patterns 120)
     = [example_part1, example_part2]"
  by (simp add: example_defs schedule_defs)

subsection \<open>Solo\<close>

lemma clip_callback_solo:
  "clip_callback patterns bpm (track\<lparr>track_solo := b\<rparr>) channel clip eng =
   clip_callback patterns bpm track channel clip eng"
  by (rule clip_callback_track) simp

lemma clips_forEach_solo:
  "clips_forEach patterns bpm (track\<lparr>track_solo := b\<rparr>) channel clips eng =
   clips_forEach patterns bpm track channel clips eng"
  by (induction clips arbitrary: eng) (simp_all add: clip_callback_solo)

lemma track_callback_solo:
  "track_callback patterns bpm (track\<lparr>track_solo := b\<rparr>) eng = track_callback patterns bpm track eng"
  by (simp add: track_callback_def clips_forEach_solo)

lemma tracks_forEach_solo:
  "tracks_forEach patterns bpm (map (\<lambda>t. t\<lparr>track_solo := solo t\<rparr>) tracks) eng =
   tracks_forEach patterns bpm tracks eng"
  by (induction tracks arbitrary: eng) (simp_all add: track_callback_solo)

lemma tracks_forEach_unmuted:
  "tracks_forEach patterns bpm (filter (\<lambda>t. \<not> track_mute t) tracks) eng =
   tracks_forEach patterns bpm tracks eng"
  by (induction tracks arbitrary: eng) (simp_all add: track_callback_def)

lemma example_solo_schedule_parts:
  "playlistParts (schedulePlaylist example_engine (spec_solo_policy example_tracks) example_patterns 120)
     = [example_part1]"
  by (simp add: example_defs schedule_defs spec_solo_policy_def)

text \<open>
  Claim C4, as stated: when at least one track has \<open>solo = true\<close>, a schedule build emits
  note events only for the solo tracks, every other track being treated as muted.  The
  code does not do that: in the example project the first track is soloed, the second is
  neither soloed nor muted, and the build schedules the parts of both.
\<close>

theorem solo_counterexample:
  "example_tracks = [example_track1, example_track2]
   \<and> track_solo example_track1 \<and> \<not> track_solo example_track2 \<and> \<not> track_mute example_track2
   \<and> playlistParts (schedulePlaylist example_engine example_tracks example_patterns 120)
       = [example_part1, example_part2]
   \<and> playlistParts
         (schedulePlaylist example_engine (spec_solo_policy example_tracks) example_patterns 120)
       = [example_part1]
   \<and> schedulePlaylist example_engine example_tracks example_patterns 120
       \<noteq> schedulePlaylist example_engine (spec_solo_policy example_tracks) example_patterns 120"
proof -
  have "schedulePlaylist example_engine example_tracks example_patterns 120
       \<noteq> schedulePlaylist example_engine (spec_solo_policy example_tracks) example_patterns 120"
  proof
    assume "schedulePlaylist example_engine example_tracks example_patterns 120
       = schedulePlaylist example_engine (spec_solo_policy example_tracks) example_patterns 120"
    then have "[example_part1, example_part2] = [example_part1]"
      using example_schedule_parts example_solo_schedule_parts by simp
    then show False by simp
  qed
  then show ?thesis
    using example_schedule_parts example_solo_schedule_parts
    by (simp add: example_tracks_def example_track1_def example_track2_def)
qed

lemma track_callback_fields:
  assumes "track_mute t' = track_mute t" "track_id t' = track_id t"
    "track_clips t' = track_clips t" "track_instrumentId t' = track_instrumentId t"
  shows "track_callback patterns bpm t' eng = track_callback patterns bpm t eng"
  using assms(1,2,3) by (simp add: track_callback_def Let_def clips_forEach_track [OF assms(4)])

lemma tracks_forEach_fields:
  "list_all2 (\<lambda>t' t. track_mute t' = track_mute t \<and> track_id t' = track_id t
                \<and> track_clips t' = track_clips t \<and> track_instrumentId t' = track_instrumentId t)
     tracks' tracks \<Longrightarrow>
   tracks_forEach patterns bpm tracks' eng = tracks_forEach patterns bpm tracks eng"
proof (induction tracks' tracks arbitrary: eng rule: list_all2_induct)
  case Nil
  then show ?case by simp
next
  case (Cons t' ts' t ts)
  have "track_callback patterns bpm t' eng = track_callback patterns bpm t eng"
    using Cons.hyps(1) by (intro track_callback_fields) simp_all
  then show ?case using Cons.IH by simp
qed

text \<open>
  Claim C4, amended.  A schedule build does not read the solo flag: whatever the solo
  flags of the tracks are, it schedules exactly what it schedules for the same tracks
  with any other solo flags, so a track that is not soloed is not treated as muted.  What
  a build schedules depends on a track only through the track's mute flag, identifier,
  clips and instrument identifier (no other field, solo and armed included, changes it),
  and tracks with \<open>mute = true\<close> contribute nothing: the build equals the build over the
  unmuted tracks alone.
\<close>

theorem schedulePlaylist_ignores_solo:
  "schedulePlaylist eng (map (\<lambda>t. t\<lparr>track_solo := solo t\<rparr>) tracks) patterns bpm =
     schedulePlaylist eng tracks patterns bpm
   \<and> schedulePlaylist eng (filter (\<lambda>t. \<not> track_mute t) tracks) patterns bpm =
     schedulePlaylist eng tracks patterns bpm
   \<and> (list_all2 (\<lambda>t' t. track_mute t' = track_mute t \<and> track_id t' = track_id t
                    \<and> track_clips t' = track_clips t
                    \<and> track_instrumentId t' = track_instrumentId t) tracks' tracks
      \<longrightarrow> schedulePlaylist eng tracks' patterns bpm = schedulePlaylist eng tracks patterns bpm)"
proof (intro conjI impI)
  show "schedulePlaylist eng (map (\<lambda>t. t\<lparr>track_solo := solo t\<rparr>) tracks) patterns bpm =
     schedulePlaylist eng tracks patterns bpm"
    by (simp add: schedulePlaylist_def tracks_forEach_solo)
  show "schedulePlaylist eng (filter (\<lambda>t. \<not> track_mute t) tracks) patterns bpm =
     schedulePlaylist eng tracks patterns bpm"
    by (simp add: schedulePlaylist_def tracks_forEach_unmuted)
  assume "list_all2 (\<lambda>t' t. track_mute t' = track_mute t \<and> track_id t' = track_id t
                    \<and> track_clips t' = track_clips t
                    \<and> track_instrumentId t' = track_instrumentId t) tracks' tracks"
  from tracks_forEach_fields [OF this]
  show "schedulePlaylist eng tracks' patterns bpm = schedulePlaylist eng tracks patterns bpm"
    unfolding schedulePlaylist_def .
qed

theorem schedulePlaylist_ignores_solo_witness:
  "schedulePlaylist example_engine (map (\<lambda>t. t\<lparr>track_solo := False\<rparr>) example_tracks)
      example_patterns 120
     = schedulePlaylist example_engine example_tracks example_patterns 120
   \<and> playlistParts (schedulePlaylist example_engine (map (\<lambda>t. t\<lparr>track_solo := False\<rparr>) example_tracks)
      example_patterns 120) = [example_part1, example_part2]
   \<and> playlistParts (schedulePlaylist example_engine
        [example_track1\<lparr>track_solo := False, track_armed := True\<rparr>,
         example_track2\<lparr>track_solo := True, track_volume := 0, track_name := ''Bass''\<rparr>]
        example_patterns 120) = [example_part1, example_part2]"
proof -
  note k = schedulePlaylist_ignores_solo [of example_engine "\<lambda>t. False" example_tracks
      example_patterns 120
      "[example_track1\<lparr>track_solo := False, track_armed := True\<rparr>,
        example_track2\<lparr>track_solo := True, track_volume := 0, track_name := ''Bass''\<rparr>]"]
  have l: "list_all2 (\<lambda>t' t. track_mute t' = track_mute t \<and> track_id t' = track_id t
                    \<and> track_clips t' = track_clips t
                    \<and> track_instrumentId t' = track_instrumentId t)
        [example_track1\<lparr>track_solo := False, track_armed := True\<rparr>,
         example_track2\<lparr>track_solo := True, track_volume := 0, track_name := ''Bass''\<rparr>]
        example_tracks"
    by (simp add: example_tracks_def)
  have a: "schedulePlaylist example_engine (map (\<lambda>t. t\<lparr>track_solo := False\<rparr>) example_tracks)
      example_patterns 120
     = schedulePlaylist example_engine example_tracks example_patterns 120"
    using k by blast
  have b: "schedulePlaylist example_engine
        [example_track1\<lparr>track_solo := False, track_armed := True\<rparr>,
         example_track2\<lparr>track_solo := True, track_volume := 0, track_name := ''Bass''\<rparr>]
        example_patterns 120 = schedulePlaylist example_engine example_tracks example_patterns 120"
    using k l by blast
  show ?thesis using a b example_schedule_parts by simp
qed

subsection \<open>Dangling references\<close>

lemma transport_schedule_frame [simp]:
  "fst (transport_schedule cb time tt) = tt_nextId tt"
  by (simp add: transport_schedule_def)

lemma points_forEach_frame [simp]:
  "trackChannels (points_forEach bpm lane channel ps eng) = trackChannels eng"
  "instruments (points_forEach bpm lane channel ps eng) = instruments eng"
  "playlistParts (points_forEach bpm lane channel ps eng) = playlistParts eng"
  "audioPlayers (points_forEach bpm lane channel ps eng) = audioPlayers eng"
  by (induction ps arbitrary: eng) (simp_all add: Let_def split: prod.split)

lemma lane_callback_frame [simp]:
  "trackChannels (lane_callback bpm lane eng) = trackChannels eng"
  "instruments (lane_callback bpm lane eng) = instruments eng"
  "playlistParts (lane_callback bpm lane eng) = playlistParts eng"
  "audioPlayers (lane_callback bpm lane eng) = audioPlayers eng"
  by (simp_all add: lane_callback_def Let_def)

lemma lanes_forEach_frame [simp]:
  "trackChannels (lanes_forEach bpm lanes eng) = trackChannels eng"
  "instruments (lanes_forEach bpm lanes eng) = instruments eng"
  "playlistParts (lanes_forEach bpm lanes eng) = playlistParts eng"
  "audioPlayers (lanes_forEach bpm lanes eng) = audioPlayers eng"
  by (induction lanes arbitrary: eng) simp_all

lemma lanes_forEach_append:
  "lanes_forEach bpm (ls1 @ ls2) eng = lanes_forEach bpm ls2 (lanes_forEach bpm ls1 eng)"
  by (induction ls1 arbitrary: eng) simp_all

lemma clip_callback_skip:
  assumes "truthy (clip_audioBufferId clip) = None"
    and "truthy (clip_patternId clip) = Some patternId"
    and "find (\<lambda>p. pat_id p = patternId) patterns = None
         \<or> instruments eng (or_empty (track_instrumentId track)) = None"
  shows "clip_callback patterns bpm track channel clip eng = eng"
  using assms(3)
proof
  assume "find (\<lambda>p. pat_id p = patternId) patterns = None"
  then show ?thesis unfolding clip_callback_def assms(1,2) by simp
next
  assume "instruments eng (or_empty (track_instrumentId track)) = None"
  then show ?thesis unfolding clip_callback_def assms(1,2) by (simp split: option.split)
qed

lemmas automation_defs = scheduleAutomation_def clearAutomation_def lane_callback_def
  transport_schedule_def beatsToSeconds_def

text \<open>
  Claim C7, as stated: an automation lane whose target track has no channel is skipped
  by schedule building.  A lane that targets the tempo is not: the example tempo lane
  names a track that has no channel, and its point is scheduled.
\<close>

theorem tempo_lane_counterexample:
  "trackChannels example_engine (lane_targetTrackId example_tempo_lane) = None
   \<and> tt_timeline (toneTransport (scheduleAutomation example_engine [example_tempo_lane] [] 120))
        = [\<lparr>te_id = 0, te_time = Seconds 1, te_callback = ParamSet Tempo (1 / 2) None None\<rparr>]
   \<and> scheduleAutomation example_engine [example_tempo_lane] [] 120
        \<noteq> scheduleAutomation example_engine [] [] 120"
proof -
  have a: "trackChannels example_engine (lane_targetTrackId example_tempo_lane) = None"
    by (simp add: example_engine_def example_tempo_lane_def)
  have b: "tt_timeline (toneTransport (scheduleAutomation example_engine [example_tempo_lane] [] 120))
        = [\<lparr>te_id = 0, te_time = Seconds 1, te_callback = ParamSet Tempo (1 / 2) None None\<rparr>]"
    by (simp add: example_engine_def example_tempo_lane_def automation_defs)
  have c: "tt_timeline (toneTransport (scheduleAutomation example_engine [] [] 120)) = []"
    by (simp add: example_engine_def automation_defs)
  have "scheduleAutomation example_engine [example_tempo_lane] [] 120
        \<noteq> scheduleAutomation example_engine [] [] 120"
  proof
    assume "scheduleAutomation example_engine [example_tempo_lane] [] 120
        = scheduleAutomation example_engine [] [] 120"
    with b c show False by simp
  qed
  with a b show ?thesis by simp
qed

text \<open>
  Claim C7, amended.  Schedule building skips, without failing, a pattern clip (a clip
  with no audio buffer) whose pattern identifier does not resolve to a pattern of the
  project or whose track's instrument identifier does not resolve to an instrument of the
  engine, and an automation lane whose target track has no channel and whose target
  parameter is not the tempo: the build over the project that contains such a clip or lane
  is the build over the project without it, so everything else is scheduled as it would
  be in its absence.  (A tempo lane needs no channel and is scheduled.)
\<close>

theorem dangling_references_skipped:
  "(truthy (clip_audioBufferId clip) = None \<and> truthy (clip_patternId clip) = Some patternId
      \<and> (find (\<lambda>p. pat_id p = patternId) patterns = None
           \<or> instruments eng (or_empty (track_instrumentId track)) = None)
      \<and> track_clips track = cs1 @ clip # cs2
    \<longrightarrow> schedulePlaylist eng (ts1 @ track # ts2) patterns bpm
        = schedulePlaylist eng (ts1 @ track\<lparr>track_clips := cs1 @ cs2\<rparr> # ts2) patterns bpm)
   \<and> (trackChannels eng (lane_targetTrackId lane) = None \<and> lane_targetParam lane \<noteq> Tempo
    \<longrightarrow> scheduleAutomation eng (ls1 @ lane # ls2) tracks bpm
        = scheduleAutomation eng (ls1 @ ls2) tracks bpm)"
proof (intro conjI impI)
  assume a: "truthy (clip_audioBufferId clip) = None \<and> truthy (clip_patternId clip) = Some patternId
      \<and> (find (\<lambda>p. pat_id p = patternId) patterns = None
           \<or> instruments eng (or_empty (track_instrumentId track)) = None)
      \<and> track_clips track = cs1 @ clip # cs2"
  have skip: "clip_callback patterns bpm track channel clip e = e"
    if "instruments e = instruments eng" for e channel
    using a that by (intro clip_callback_skip [where patternId = patternId]) auto
  have clips: "clips_forEach patterns bpm track channel (cs1 @ clip # cs2) e
      = clips_forEach patterns bpm track channel (cs1 @ cs2) e"
    if "instruments e = instruments eng" for e channel
    using that by (simp add: clips_forEach_append skip)
  have upd: "clips_forEach patterns bpm (track\<lparr>track_clips := cs\<rparr>) channel cs' e
      = clips_forEach patterns bpm track channel cs' e" for cs cs' channel e
    by (rule clips_forEach_track) simp
  have tr: "track_callback patterns bpm (track\<lparr>track_clips := cs1 @ cs2\<rparr>) e
      = track_callback patterns bpm track e"
    if "instruments e = instruments eng" for e
    using a that by (simp add: track_callback_def Let_def clips upd)
  show "schedulePlaylist eng (ts1 @ track # ts2) patterns bpm
        = schedulePlaylist eng (ts1 @ track\<lparr>track_clips := cs1 @ cs2\<rparr> # ts2) patterns bpm"
    by (simp add: schedulePlaylist_def tracks_forEach_append tr)
next
  assume a: "trackChannels eng (lane_targetTrackId lane) = None \<and> lane_targetParam lane \<noteq> Tempo"
  have "lane_callback bpm lane e = e" if "trackChannels e = trackChannels eng" for e
    using a that by (simp add: lane_callback_def Let_def)
  then show "scheduleAutomation eng (ls1 @ lane # ls2) tracks bpm
        = scheduleAutomation eng (ls1 @ ls2) tracks bpm"
    by (simp add: scheduleAutomation_def lanes_forEach_append)
qed

theorem dangling_references_skipped_witness:
  "truthy (clip_audioBufferId (example_clip ''c3'' ''ghost'' 8)) = None
   \<and> truthy (clip_patternId (example_clip ''c3'' ''ghost'' 8)) = Some ''ghost''
   \<and> find (\<lambda>p. pat_id p = ''ghost'') example_patterns = None
   \<and> track_clips example_track2
        = [example_clip ''c2'' ''p2'' 4] @ example_clip ''c3'' ''ghost'' 8 # []
   \<and> schedulePlaylist example_engine ([example_track1] @ example_track2 # []) example_patterns 120
        = schedulePlaylist example_engine
            ([example_track1] @ example_track2\<lparr>track_clips := [example_clip ''c2'' ''p2'' 4] @ []\<rparr> # [])
            example_patterns 120
   \<and> playlistParts
         (schedulePlaylist example_engine ([example_track1] @ example_track2 # []) example_patterns 120)
        = [example_part1, example_part2]
   \<and> trackChannels example_engine (lane_targetTrackId example_lane) = None
   \<and> lane_targetParam example_lane \<noteq> Tempo
   \<and> scheduleAutomation example_engine ([example_tempo_lane] @ example_lane # []) [] 120
        = scheduleAutomation example_engine ([example_tempo_lane] @ []) [] 120"
proof -
  have a: "truthy (clip_audioBufferId (example_clip ''c3'' ''ghost'' 8)) = None
     \<and> truthy (clip_patternId (example_clip ''c3'' ''ghost'' 8)) = Some ''ghost''
     \<and> (find (\<lambda>p. pat_id p = ''ghost'') example_patterns = None
          \<or> instruments example_engine (or_empty (track_instrumentId example_track2)) = None)
     \<and> track_clips example_track2
          = [example_clip ''c2'' ''p2'' 4] @ example_clip ''c3'' ''ghost'' 8 # []"
    by (simp add: example_defs truthy_def)
  have f: "find (\<lambda>p. pat_id p = ''ghost'') example_patterns = None"
    by (simp add: example_defs)
  have l: "trackChannels example_engine (lane_targetTrackId example_lane) = None
     \<and> lane_targetParam example_lane \<noteq> Tempo"
    by (simp add: example_engine_def example_lane_def)
  note inst = dangling_references_skipped
    [of "example_clip ''c3'' ''ghost'' 8" "''ghost''" example_patterns example_engine
        example_track2 "[example_clip ''c2'' ''p2'' 4]" "[]" "[example_track1]" "[]" 120
        example_lane "[example_tempo_lane]" "[]" "[]"]
  have p: "schedulePlaylist example_engine ([example_track1] @ example_track2 # []) example_patterns 120
        = schedulePlaylist example_engine
            ([example_track1] @ example_track2\<lparr>track_clips := [example_clip ''c2'' ''p2'' 4] @ []\<rparr> # [])
            example_patterns 120"
    using inst a by blast
  have q: "scheduleAutomation example_engine ([example_tempo_lane] @ example_lane # []) [] 120
        = scheduleAutomation example_engine ([example_tempo_lane] @ []) [] 120"
    using inst l by blast
  have r: "playlistParts
         (schedulePlaylist example_engine ([example_track1] @ example_track2 # []) example_patterns 120)
        = [example_part1, example_part2]"
    using example_schedule_parts by (simp add: example_tracks_def)
  show ?thesis using a f l p q r by blast
qed

section \<open>Store actions\<close>

lemma update_first_set:
  "x \<in> set (update_first P f xs) \<Longrightarrow> x \<in> set xs \<or> (\<exists>y \<in> set xs. P y \<and> x = f y)"
  by (induction xs) (auto split: if_splits)

lemma find_update_first:
  "find P xs = Some x \<Longrightarrow> P (f x) \<Longrightarrow> find P (update_first P f xs) = Some (f x)"
  by (induction xs) (auto split: if_splits)

lemma update_first_member:
  "find P xs = Some x \<Longrightarrow> f x \<in> set (update_first P f xs)"
  by (induction xs) (auto split: if_splits)

lemma update_first_length [simp]: "length (update_first P f xs) = length xs"
  by (induction xs) auto

lemma saveHistory_project [simp]: "project (saveHistory s) = project s"
  and saveHistory_engine [simp]: "engine (saveHistory s) = engine s"
  and saveHistory_transport [simp]: "transport (saveHistory s) = transport s"
  by (simp_all add: saveHistory_def Let_def)

lemmas state_defs = example_state_def example_project_def example_lane_def example_points_def
  example_tempo_lane_def

lemmas project_defs = example_state_def example_project_def example_patterns_def
  example_pattern1_def example_pattern2_def

lemmas store_defs = play_def pause_def addNote_def saveHistory_def engine_play_def engine_pause_def
  transport_start_def transport_pause_def maxHistorySize_def

subsection \<open>Automation points stay sorted and clamped\<close>

lemma clamp_range: "0 \<le> max 0 (min 1 (v::real)) \<and> max 0 (min 1 v) \<le> 1"
  by auto

lemma sort_points_invariant:
  "list_all (\<lambda>p. 0 \<le> pt_value p \<and> pt_value p \<le> 1) ps \<Longrightarrow>
   sorted (map pt_time (sort_points ps))
   \<and> list_all (\<lambda>p. 0 \<le> pt_value p \<and> pt_value p \<le> 1) (sort_points ps)"
  by (simp add: sort_points_def list_all_iff)

lemma update_point_value:
  "0 \<le> pt_value p \<and> pt_value p \<le> 1 \<Longrightarrow>
   0 \<le> pt_value (update_point u p) \<and> pt_value (update_point u p) \<le> 1"
  by (auto simp: update_point_def assign_point_def Let_def split: option.splits)

lemma add_lane_invariant:
  assumes "lane_invariant lane"
  shows "lane_invariant (lane\<lparr>lane_points := sort_points (lane_points lane @
            [\<lparr>pt_id = uuid, pt_time = time, pt_value = max 0 (min 1 val), pt_curve = crv\<rparr>])\<rparr>)"
  using assms sort_points_invariant [of "lane_points lane @
            [\<lparr>pt_id = uuid, pt_time = time, pt_value = max 0 (min 1 val), pt_curve = crv\<rparr>]"]
  by (simp add: lane_invariant_def)

lemma update_lane_invariant:
  assumes "lane_invariant lane"
  shows "lane_invariant (case find (\<lambda>p. pt_id p = pointId) (lane_points lane) of
                       None \<Rightarrow> lane
                     | Some _ \<Rightarrow>
                         lane\<lparr>lane_points :=
                           sort_points (update_first (\<lambda>p. pt_id p = pointId)
                                          (update_point updates) (lane_points lane))\<rparr>)"
proof (cases "find (\<lambda>p. pt_id p = pointId) (lane_points lane)")
  case None
  then show ?thesis using assms by simp
next
  case (Some a)
  have "list_all (\<lambda>p. 0 \<le> pt_value p \<and> pt_value p \<le> 1)
          (update_first (\<lambda>p. pt_id p = pointId) (update_point updates) (lane_points lane))"
    unfolding list_all_iff
  proof
    fix x assume "x \<in> set (update_first (\<lambda>p. pt_id p = pointId) (update_point updates) (lane_points lane))"
    then have "x \<in> set (lane_points lane)
       \<or> (\<exists>y \<in> set (lane_points lane). x = update_point updates y)"
      using update_first_set by fastforce
    then show "0 \<le> pt_value x \<and> pt_value x \<le> 1"
      using assms update_point_value by (auto simp: lane_invariant_def list_all_iff)
  qed
  from sort_points_invariant [OF this] Some show ?thesis
    by (simp add: lane_invariant_def)
qed

text \<open>
  Claim C8.  Both automation-point mutations keep the lane invariant: if every lane of
  the project has its points in ascending time order and every value in \<open>[0, 1]\<close>, so has
  every lane after \<^verbatim>\<open>addAutomationPoint\<close> and after \<^verbatim>\<open>updateAutomationPoint\<close>, whatever
  the arguments.  An out-of-range value is clamped, not rejected: the lane found gains
  the new point with the value \<open>max 0 (min 1 value)\<close>, and an update that carries a value
  stores the point with that value clamped.
\<close>

theorem automation_point_mutations_keep_invariant:
  assumes inv: "\<forall>lane \<in> set (project_automationLanes (project s)). lane_invariant lane"
  shows "(\<forall>lane \<in> set (project_automationLanes
                         (project (addAutomationPoint laneId time val crv uuid s))).
            lane_invariant lane)
       \<and> (\<forall>lane \<in> set (project_automationLanes
                         (project (updateAutomationPoint laneId pointId updates s))).
            lane_invariant lane)
       \<and> (\<forall>lane. find (\<lambda>l. lane_id l = laneId) (project_automationLanes (project s)) = Some lane
            \<longrightarrow> (\<exists>lane'. find (\<lambda>l. lane_id l = laneId)
                          (project_automationLanes
                             (project (addAutomationPoint laneId time val crv uuid s))) = Some lane'
                  \<and> length (lane_points lane') = length (lane_points lane) + 1
                  \<and> \<lparr>pt_id = uuid, pt_time = time, pt_value = max 0 (min 1 val), pt_curve = crv\<rparr>
                       \<in> set (lane_points lane')))
       \<and> (\<forall>lane p v. find (\<lambda>l. lane_id l = laneId) (project_automationLanes (project s)) = Some lane
              \<and> find (\<lambda>p. pt_id p = pointId) (lane_points lane) = Some p
              \<and> updp_value updates = Some v
            \<longrightarrow> (\<exists>lane'. find (\<lambda>l. lane_id l = laneId)
                          (project_automationLanes
                             (project (updateAutomationPoint laneId pointId updates s))) = Some lane'
                  \<and> length (lane_points lane') = length (lane_points lane)
                  \<and> (assign_point p updates)\<lparr>pt_value := max 0 (min 1 v)\<rparr>
                       \<in> set (lane_points lane')))"
proof (intro conjI ballI allI impI)
  fix lane
  assume "lane \<in> set (project_automationLanes (project (addAutomationPoint laneId time val crv uuid s)))"
  then have "lane \<in> set (project_automationLanes (project s))
     \<or> (\<exists>y \<in> set (project_automationLanes (project s)).
          lane = y\<lparr>lane_points := sort_points (lane_points y @
            [\<lparr>pt_id = uuid, pt_time = time, pt_value = max 0 (min 1 val), pt_curve = crv\<rparr>])\<rparr>)"
    using update_first_set [of lane "\<lambda>l. lane_id l = laneId" _ "project_automationLanes (project s)"]
    by (fastforce simp: addAutomationPoint_def Let_def)
  then show "lane_invariant lane" using inv add_lane_invariant by blast
next
  fix lane
  assume "lane \<in> set (project_automationLanes (project (updateAutomationPoint laneId pointId updates s)))"
  then have "lane \<in> set (project_automationLanes (project s))
     \<or> (\<exists>y \<in> set (project_automationLanes (project s)).
          lane = (case find (\<lambda>p. pt_id p = pointId) (lane_points y) of
                       None \<Rightarrow> y
                     | Some _ \<Rightarrow>
                         y\<lparr>lane_points :=
                           sort_points (update_first (\<lambda>p. pt_id p = pointId)
                                          (update_point updates) (lane_points y))\<rparr>))"
    using update_first_set [of lane "\<lambda>l. lane_id l = laneId" _ "project_automationLanes (project s)"]
    by (fastforce simp: updateAutomationPoint_def)
  then show "lane_invariant lane" using inv update_lane_invariant by blast
next
  fix lane
  assume f: "find (\<lambda>l. lane_id l = laneId) (project_automationLanes (project s)) = Some lane"
  then have id: "lane_id lane = laneId" by (auto simp: find_Some_iff)
  define point where "point = \<lparr>pt_id = uuid, pt_time = time, pt_value = max 0 (min 1 val), pt_curve = crv\<rparr>"
  define lane' where "lane' = lane\<lparr>lane_points := sort_points (lane_points lane @ [point])\<rparr>"
  have "find (\<lambda>l. lane_id l = laneId)
          (project_automationLanes (project (addAutomationPoint laneId time val crv uuid s))) = Some lane'"
    using find_update_first [OF f, of "\<lambda>lane. lane\<lparr>lane_points := sort_points (lane_points lane @ [point])\<rparr>"] id
    by (simp add: addAutomationPoint_def Let_def lane'_def point_def)
  moreover have "length (lane_points lane') = length (lane_points lane) + 1"
    by (simp add: lane'_def sort_points_def)
  moreover have "point \<in> set (lane_points lane')"
    by (simp add: lane'_def sort_points_def)
  ultimately show "\<exists>lane'. find (\<lambda>l. lane_id l = laneId)
                          (project_automationLanes
                             (project (addAutomationPoint laneId time val crv uuid s))) = Some lane'
                  \<and> length (lane_points lane') = length (lane_points lane) + 1
                  \<and> \<lparr>pt_id = uuid, pt_time = time, pt_value = max 0 (min 1 val), pt_curve = crv\<rparr>
                       \<in> set (lane_points lane')"
    unfolding point_def by blast
next
  fix lane p v
  assume a: "find (\<lambda>l. lane_id l = laneId) (project_automationLanes (project s)) = Some lane
              \<and> find (\<lambda>p. pt_id p = pointId) (lane_points lane) = Some p
              \<and> updp_value updates = Some v"
  then have f: "find (\<lambda>l. lane_id l = laneId) (project_automationLanes (project s)) = Some lane"
    and fp: "find (\<lambda>p. pt_id p = pointId) (lane_points lane) = Some p"
    and v: "updp_value updates = Some v" by simp_all
  have id: "lane_id lane = laneId" using f by (auto simp: find_Some_iff)
  define lane' where "lane' = lane\<lparr>lane_points :=
      sort_points (update_first (\<lambda>p. pt_id p = pointId) (update_point updates) (lane_points lane))\<rparr>"
  have "find (\<lambda>l. lane_id l = laneId)
          (project_automationLanes (project (updateAutomationPoint laneId pointId updates s))) = Some lane'"
    using find_update_first [OF f, of "\<lambda>lane. case find (\<lambda>p. pt_id p = pointId) (lane_points lane) of
                       None \<Rightarrow> lane
                     | Some _ \<Rightarrow>
                         lane\<lparr>lane_points :=
                           sort_points (update_first (\<lambda>p. pt_id p = pointId)
                                          (update_point updates) (lane_points lane))\<rparr>"] id fp
    by (simp add: updateAutomationPoint_def lane'_def)
  moreover have "length (lane_points lane') = length (lane_points lane)"
    by (simp add: lane'_def sort_points_def)
  moreover have "update_point updates p \<in> set (lane_points lane')"
    using update_first_member [OF fp, of "update_point updates"]
    by (simp add: lane'_def sort_points_def)
  moreover have "update_point updates p = (assign_point p updates)\<lparr>pt_value := max 0 (min 1 v)\<rparr>"
    using v by (simp add: update_point_def Let_def assign_point_def)
  ultimately show "\<exists>lane'. find (\<lambda>l. lane_id l = laneId)
                          (project_automationLanes
                             (project (updateAutomationPoint laneId pointId updates s))) = Some lane'
                  \<and> length (lane_points lane') = length (lane_points lane)
                  \<and> (assign_point p updates)\<lparr>pt_value := max 0 (min 1 v)\<rparr>
                       \<in> set (lane_points lane')"
    by metis
qed

theorem automation_point_mutations_keep_invariant_witness:
  "list_all lane_invariant (project_automationLanes (project example_state))
   \<and> list_all lane_invariant
        (project_automationLanes
           (project (addAutomationPoint ''lane'' 5 1.7 Linear ''new'' example_state)))
   \<and> map (\<lambda>p. (pt_id p, pt_time p, pt_value p))
        (lane_points (hd (project_automationLanes
           (project (addAutomationPoint ''lane'' 5 1.7 Linear ''new'' example_state)))))
      = [(''a'', 0, 1 / 5), (''b'', 4, 4 / 5), (''new'', 5, 1), (''c'', 8, 0), (''d'', 10, 1)]
   \<and> list_all lane_invariant
        (project_automationLanes
           (project (updateAutomationPoint ''lane'' ''a''
              \<lparr>updp_id = None, updp_time = Some 9, updp_value = Some (- 3), updp_curve = None\<rparr>
              example_state)))
   \<and> map (\<lambda>p. (pt_id p, pt_time p, pt_value p))
        (lane_points (hd (project_automationLanes
           (project (updateAutomationPoint ''lane'' ''a''
              \<lparr>updp_id = None, updp_time = Some 9, updp_value = Some (- 3), updp_curve = None\<rparr>
              example_state)))))
      = [(''b'', 4, 4 / 5), (''c'', 8, 0), (''a'', 9, 0), (''d'', 10, 1)]"
proof -
  have inv: "\<forall>lane \<in> set (project_automationLanes (project example_state)). lane_invariant lane"
    by (simp add: state_defs lane_invariant_def)
  note k = automation_point_mutations_keep_invariant [OF inv]
  have a: "list_all lane_invariant
        (project_automationLanes
           (project (addAutomationPoint ''lane'' 5 1.7 Linear ''new'' example_state)))"
    using k [of "''lane''" 5 "1.7" Linear "''new''"] unfolding list_all_iff by blast
  have u: "list_all lane_invariant
        (project_automationLanes
           (project (updateAutomationPoint ''lane'' ''a''
              \<lparr>updp_id = None, updp_time = Some 9, updp_value = Some (- 3), updp_curve = None\<rparr>
              example_state)))"
    using k [of "''lane''" _ _ _ _ "''a''"
        "\<lparr>updp_id = None, updp_time = Some 9, updp_value = Some (- 3), updp_curve = None\<rparr>"]
    unfolding list_all_iff by blast
  have a': "map (\<lambda>p. (pt_id p, pt_time p, pt_value p))
        (lane_points (hd (project_automationLanes
           (project (addAutomationPoint ''lane'' 5 1.7 Linear ''new'' example_state)))))
      = [(''a'', 0, 1 / 5), (''b'', 4, 4 / 5), (''new'', 5, 1), (''c'', 8, 0), (''d'', 10, 1)]"
    by (simp add: state_defs addAutomationPoint_def sort_points_def)
  have u': "map (\<lambda>p. (pt_id p, pt_time p, pt_value p))
        (lane_points (hd (project_automationLanes
           (project (updateAutomationPoint ''lane'' ''a''
              \<lparr>updp_id = None, updp_time = Some 9, updp_value = Some (- 3), updp_curve = None\<rparr>
              example_state)))))
      = [(''b'', 4, 4 / 5), (''c'', 8, 0), (''a'', 9, 0), (''d'', 10, 1)]"
    by (simp add: state_defs updateAutomationPoint_def sort_points_def update_point_def
          assign_point_def)
  show ?thesis using inv a u a' u' unfolding list_all_iff by blast
qed

subsection \<open>Notes\<close>

lemma assign_note_in_range:
  assumes "note_in_range n"
    and "\<forall>v. upd_velocity u = Some v \<longrightarrow> 0 \<le> v \<and> v \<le> 127"
    and "\<forall>d. upd_duration u = Some d \<longrightarrow> 0 < d"
  shows "note_in_range (assign_note n u)"
  using assms by (auto simp: note_in_range_def assign_note_def split: option.splits)

lemma math_round_clamped:
  "1 \<le> math_round (max 1 (min 127 x)) \<and> math_round (max 1 (min 127 x)) \<le> 127"
proof -
  have "1 \<le> max 1 (min 127 x)" "max 1 (min 127 x) \<le> 127" by auto
  then have "(1::int) \<le> \<lfloor>max 1 (min 127 x) + 1 / 2\<rfloor>" "\<lfloor>max 1 (min 127 x) + 1 / 2\<rfloor> \<le> (127::int)"
    by (simp_all add: le_floor_iff floor_le_iff)
  then show ?thesis unfolding math_round_def by simp
qed

lemma getSnapBeats_pos: "0 < getSnapBeats snapValue"
  by (simp add: getSnapBeats_def)

text \<open>
  Claim C9, as stated: every note stored after \<^verbatim>\<open>addNote\<close> or \<^verbatim>\<open>updateNote\<close> has a
  velocity in \<open>[0, 127]\<close> and a positive duration, out-of-range velocities being clamped.
  The store does not clamp: a note added with velocity 200 and duration 0 is stored with
  velocity 200 and duration 0, and an update to velocity -5 stores -5.
\<close>

theorem note_clamp_counterexample:
  "pat_notes (hd (project_patterns (project (addNote ''p1'' example_loud_note ''n9'' example_state))))
     = [\<lparr>mn_id = ''n1'', mn_note = ''C4'', mn_startTime = 1, mn_duration = 1, mn_velocity = 127\<rparr>,
        \<lparr>mn_id = ''n2'', mn_note = ''C4'', mn_startTime = 0, mn_duration = 1, mn_velocity = 127\<rparr>,
        \<lparr>mn_id = ''n9'', mn_note = ''G4'', mn_startTime = 2, mn_duration = 0, mn_velocity = 200\<rparr>]
   \<and> pat_notes (hd (project_patterns (project
         (updateNote ''p1'' ''n1'' (no_updates\<lparr>upd_velocity := Some (- 5)\<rparr>) example_state))))
     = [\<lparr>mn_id = ''n1'', mn_note = ''C4'', mn_startTime = 1, mn_duration = 1, mn_velocity = - 5\<rparr>,
        \<lparr>mn_id = ''n2'', mn_note = ''C4'', mn_startTime = 0, mn_duration = 1, mn_velocity = 127\<rparr>]
   \<and> \<not> notes_in_range (addNote ''p1'' example_loud_note ''n9'' example_state)
   \<and> \<not> notes_in_range (updateNote ''p1'' ''n1'' (no_updates\<lparr>upd_velocity := Some (- 5)\<rparr>)
           example_state)"
  by (simp add: project_defs addNote_def updateNote_def example_loud_note_def no_updates_def
        assign_note_def notes_in_range_def note_in_range_def)

text \<open>
  Claim C9, amended.  \<^verbatim>\<open>addNote\<close> and \<^verbatim>\<open>updateNote\<close> store the values they are given
  (the added note as it is, with its new identifier; the updated note with exactly the
  supplied fields overwritten) and neither clamp nor reject.  So the notes stored after a
  note mutation have velocity in \<open>[0, 127]\<close> and duration \<open>> 0\<close> whenever the notes stored
  before had and the supplied velocity and duration have.  The clamping is the piano
  roll's: the velocity it passes after a drag is in \<open>[1, 127]\<close> and the duration it passes
  after a resize is at least one snap unit, so its edits keep the range.
\<close>

theorem note_mutations_store_values_unchanged:
  "(notes_in_range s \<and> note_in_range newNote \<longrightarrow> notes_in_range (addNote patternId newNote uuid s))
   \<and> (notes_in_range s
        \<and> (\<forall>v. upd_velocity updates = Some v \<longrightarrow> 0 \<le> v \<and> v \<le> 127)
        \<and> (\<forall>d. upd_duration updates = Some d \<longrightarrow> 0 < d)
      \<longrightarrow> notes_in_range (updateNote patternId noteId updates s))
   \<and> (\<forall>pattern. find (\<lambda>p. pat_id p = patternId) (project_patterns (project s)) = Some pattern
      \<longrightarrow> find (\<lambda>p. pat_id p = patternId)
            (project_patterns (project (addNote patternId newNote uuid s)))
          = Some (pattern\<lparr>pat_notes := pat_notes pattern @ [newNote\<lparr>mn_id := uuid\<rparr>]\<rparr>))
   \<and> (\<forall>pattern n. find (\<lambda>p. pat_id p = patternId) (project_patterns (project s)) = Some pattern
        \<and> find (\<lambda>n. mn_id n = noteId) (pat_notes pattern) = Some n
      \<longrightarrow> (\<exists>pattern'. find (\<lambda>p. pat_id p = patternId)
                (project_patterns (project (updateNote patternId noteId updates s))) = Some pattern'
            \<and> assign_note n updates \<in> set (pat_notes pattern')))
   \<and> (notes_in_range s \<longrightarrow>
        notes_in_range (updateNote patternId noteId (handleVelocityMouseMove originalVelocity deltaY) s))
   \<and> (notes_in_range s \<and> 0 < beatWidth \<longrightarrow>
        notes_in_range (updateNote patternId noteId
             (handleMouseMove_resize snapValue beatWidth originalDuration deltaX) s))"
proof -
  have upd: "notes_in_range (updateNote patternId noteId u s)"
    if r: "notes_in_range s"
      and v: "\<forall>v. upd_velocity u = Some v \<longrightarrow> 0 \<le> v \<and> v \<le> 127"
      and d: "\<forall>d. upd_duration u = Some d \<longrightarrow> 0 < d" for u
    unfolding notes_in_range_def list_all_iff
  proof (intro ballI)
    fix p n
    assume p: "p \<in> set (project_patterns (project (updateNote patternId noteId u s)))"
      and n: "n \<in> set (pat_notes p)"
    from p have "p \<in> set (project_patterns (project s))
       \<or> (\<exists>y \<in> set (project_patterns (project s)).
            p = y\<lparr>pat_notes := update_first (\<lambda>n. mn_id n = noteId) (\<lambda>n. assign_note n u) (pat_notes y)\<rparr>)"
      using update_first_set [of p "\<lambda>p. pat_id p = patternId" _ "project_patterns (project s)"]
      by (fastforce simp: updateNote_def Let_def)
    then show "note_in_range n"
    proof
      assume "p \<in> set (project_patterns (project s))"
      then show ?thesis using r n by (auto simp: notes_in_range_def list_all_iff)
    next
      assume "\<exists>y \<in> set (project_patterns (project s)).
            p = y\<lparr>pat_notes := update_first (\<lambda>n. mn_id n = noteId) (\<lambda>n. assign_note n u) (pat_notes y)\<rparr>"
      then obtain y where y: "y \<in> set (project_patterns (project s))"
        and py: "p = y\<lparr>pat_notes := update_first (\<lambda>n. mn_id n = noteId) (\<lambda>n. assign_note n u) (pat_notes y)\<rparr>"
        by blast
      from n py have "n \<in> set (pat_notes y) \<or> (\<exists>m \<in> set (pat_notes y). n = assign_note m u)"
        using update_first_set [of n "\<lambda>n. mn_id n = noteId" "\<lambda>n. assign_note n u" "pat_notes y"]
        by auto
      moreover have "\<forall>m \<in> set (pat_notes y). note_in_range m"
        using r y by (auto simp: notes_in_range_def list_all_iff)
      ultimately show ?thesis using assign_note_in_range [OF _ v d] by blast
    qed
  qed
  have add: "notes_in_range (addNote patternId newNote uuid s)"
    if r: "notes_in_range s" and nn: "note_in_range newNote"
    unfolding notes_in_range_def list_all_iff
  proof (intro ballI)
    fix p n
    assume p: "p \<in> set (project_patterns (project (addNote patternId newNote uuid s)))"
      and n: "n \<in> set (pat_notes p)"
    from p have "p \<in> set (project_patterns (project s))
       \<or> (\<exists>y \<in> set (project_patterns (project s)).
            p = y\<lparr>pat_notes := pat_notes y @ [newNote\<lparr>mn_id := uuid\<rparr>]\<rparr>)"
      using update_first_set [of p "\<lambda>p. pat_id p = patternId" _ "project_patterns (project s)"]
      by (fastforce simp: addNote_def Let_def)
    moreover have "note_in_range (newNote\<lparr>mn_id := uuid\<rparr>)"
      using nn by (simp add: note_in_range_def)
    ultimately show "note_in_range n"
      using r n by (auto simp: notes_in_range_def list_all_iff)
  qed
  have stored: "find (\<lambda>p. pat_id p = patternId)
            (project_patterns (project (addNote patternId newNote uuid s)))
          = Some (pattern\<lparr>pat_notes := pat_notes pattern @ [newNote\<lparr>mn_id := uuid\<rparr>]\<rparr>)"
    if f: "find (\<lambda>p. pat_id p = patternId) (project_patterns (project s)) = Some pattern" for pattern
  proof -
    have "pat_id pattern = patternId" using f by (auto simp: find_Some_iff)
    then show ?thesis
      using find_update_first [OF f, of "\<lambda>pattern. pattern\<lparr>pat_notes := pat_notes pattern @ [newNote\<lparr>mn_id := uuid\<rparr>]\<rparr>"]
      by (simp add: addNote_def Let_def)
  qed
  have assigned: "\<exists>pattern'. find (\<lambda>p. pat_id p = patternId)
                (project_patterns (project (updateNote patternId noteId updates s))) = Some pattern'
            \<and> assign_note n updates \<in> set (pat_notes pattern')"
    if f: "find (\<lambda>p. pat_id p = patternId) (project_patterns (project s)) = Some pattern"
      and fn: "find (\<lambda>n. mn_id n = noteId) (pat_notes pattern) = Some n" for pattern n
  proof -
    have "pat_id pattern = patternId" using f by (auto simp: find_Some_iff)
    then have "find (\<lambda>p. pat_id p = patternId)
                (project_patterns (project (updateNote patternId noteId updates s)))
        = Some (pattern\<lparr>pat_notes := update_first (\<lambda>n. mn_id n = noteId)
                  (\<lambda>n. assign_note n updates) (pat_notes pattern)\<rparr>)"
      using find_update_first [OF f, of "\<lambda>pattern. pattern\<lparr>pat_notes := update_first (\<lambda>n. mn_id n = noteId)
                  (\<lambda>n. assign_note n updates) (pat_notes pattern)\<rparr>"]
      by (simp add: updateNote_def Let_def)
    moreover have "assign_note n updates \<in> set (update_first (\<lambda>n. mn_id n = noteId)
                  (\<lambda>n. assign_note n updates) (pat_notes pattern))"
      using update_first_member [OF fn] by fast
    ultimately show ?thesis by simp
  qed
  have vel: "notes_in_range (updateNote patternId noteId (handleVelocityMouseMove originalVelocity deltaY) s)"
    if r: "notes_in_range s"
    using math_round_clamped [of "originalVelocity + deltaY"]
    by (intro upd [OF r]) (auto simp: handleVelocityMouseMove_def no_updates_def Let_def)
  have res: "notes_in_range (updateNote patternId noteId
             (handleMouseMove_resize snapValue beatWidth originalDuration deltaX) s)"
    if r: "notes_in_range s"
    using getSnapBeats_pos [of snapValue]
    by (intro upd [OF r]) (auto simp: handleMouseMove_resize_def no_updates_def Let_def)
  show ?thesis using upd add stored assigned vel res by blast
qed

theorem note_mutations_store_values_unchanged_witness:
  "notes_in_range example_state \<and> note_in_range example_soft_note
   \<and> notes_in_range (addNote ''p1'' example_soft_note ''n9'' example_state)
   \<and> find (\<lambda>p. pat_id p = ''p1'')
        (project_patterns (project (addNote ''p1'' example_soft_note ''n9'' example_state)))
      = Some (example_pattern1\<lparr>pat_notes := pat_notes example_pattern1
                                  @ [example_soft_note\<lparr>mn_id := ''n9''\<rparr>]\<rparr>)
   \<and> notes_in_range (updateNote ''p1'' ''n1'' (handleVelocityMouseMove 127 40) example_state)
   \<and> handleVelocityMouseMove 127 40 = no_updates\<lparr>upd_velocity := Some 127\<rparr>"
proof -
  have r: "notes_in_range example_state"
    by (simp add: project_defs notes_in_range_def note_in_range_def)
  have n: "note_in_range example_soft_note"
    by (simp add: example_soft_note_def note_in_range_def)
  have f: "find (\<lambda>p. pat_id p = ''p1'') (project_patterns (project example_state))
      = Some example_pattern1"
    by (simp add: project_defs)
  note k = note_mutations_store_values_unchanged
    [where s = example_state and newNote = example_soft_note and patternId = "''p1''"
       and uuid = "''n9''" and noteId = "''n1''" and originalVelocity = 127 and deltaY = 40]
  have a: "notes_in_range (addNote ''p1'' example_soft_note ''n9'' example_state)"
    using k r n by blast
  have b: "find (\<lambda>p. pat_id p = ''p1'')
        (project_patterns (project (addNote ''p1'' example_soft_note ''n9'' example_state)))
      = Some (example_pattern1\<lparr>pat_notes := pat_notes example_pattern1
                                  @ [example_soft_note\<lparr>mn_id := ''n9''\<rparr>]\<rparr>)"
    using k f by blast
  have c: "notes_in_range (updateNote ''p1'' ''n1'' (handleVelocityMouseMove 127 40) example_state)"
    using k r by blast
  have d: "handleVelocityMouseMove 127 40 = no_updates\<lparr>upd_velocity := Some 127\<rparr>"
    by (simp add: handleVelocityMouseMove_def math_round_def)
  show ?thesis using r n a b c d by blast
qed

subsection \<open>Removing an instrument\<close>

lemma schedulePattern_missing:
  "instruments eng (pat_instrumentId pattern) = None \<Longrightarrow> schedulePattern eng pattern startTime = eng"
  by (simp add: schedulePattern_def)

text \<open>
  Claim C6, as stated: removing an instrument that a pattern references leaves the
  pattern and its notes in the project.  The store's \<^verbatim>\<open>removeInstrument\<close> filters the
  patterns: the example's first pattern is bound to the removed instrument and is gone
  afterwards.
\<close>

theorem removeInstrument_counterexample:
  "example_pattern1 \<in> set (project_patterns (project example_state))
   \<and> pat_instrumentId example_pattern1 = ''synth1''
   \<and> project_patterns (project (removeInstrument ''synth1'' example_state)) = [example_pattern2]
   \<and> example_pattern1 \<notin> set (project_patterns (project (removeInstrument ''synth1'' example_state)))"
  by (simp add: project_defs removeInstrument_def)

text \<open>
  Claim C6, amended.  Removing an instrument removes every pattern bound to it, with
  its notes, and keeps every other pattern; the tracks keep their clips and lose their
  binding to the instrument; the engine no longer knows the instrument, and a later
  \<^verbatim>\<open>schedulePattern\<close> over any pattern bound to it returns without scheduling anything
  (the engine is unchanged) and without failing.
\<close>

theorem removeInstrument_removes_patterns:
  "project_patterns (project (removeInstrument instrumentId s))
     = filter (\<lambda>p. pat_instrumentId p \<noteq> instrumentId) (project_patterns (project s))
   \<and> map track_clips (project_tracks (project (removeInstrument instrumentId s)))
     = map track_clips (project_tracks (project s))
   \<and> list_all (\<lambda>t. track_instrumentId t \<noteq> Some instrumentId)
        (project_tracks (project (removeInstrument instrumentId s)))
   \<and> instruments (engine (removeInstrument instrumentId s)) instrumentId = None
   \<and> (\<forall>pattern startTime. pat_instrumentId pattern = instrumentId \<longrightarrow>
        schedulePattern (engine (removeInstrument instrumentId s)) pattern startTime
          = engine (removeInstrument instrumentId s))"
proof -
  have e: "instruments (engine (removeInstrument instrumentId s)) instrumentId = None"
    by (simp add: removeInstrument_def Let_def engine_removeInstrument_def split: option.split)
  have c: "map track_clips (project_tracks (project (removeInstrument instrumentId s)))
     = map track_clips (project_tracks (project s))"
    by (simp add: removeInstrument_def Let_def comp_def if_distrib [of track_clips] cong: if_cong)
  have t: "list_all (\<lambda>t. track_instrumentId t \<noteq> Some instrumentId)
        (project_tracks (project (removeInstrument instrumentId s)))"
    by (auto simp: removeInstrument_def Let_def list_all_iff)
  have p: "project_patterns (project (removeInstrument instrumentId s))
     = filter (\<lambda>p. pat_instrumentId p \<noteq> instrumentId) (project_patterns (project s))"
    by (simp add: removeInstrument_def Let_def)
  show ?thesis using e c t p schedulePattern_missing by simp
qed

theorem removeInstrument_removes_patterns_witness:
  "pat_instrumentId example_pattern1 = ''synth1''
   \<and> project_patterns (project (removeInstrument ''synth1'' example_state)) = [example_pattern2]
   \<and> schedulePattern (engine (removeInstrument ''synth1'' example_state)) example_pattern1 0
        = engine (removeInstrument ''synth1'' example_state)
   \<and> map track_clips (project_tracks (project (removeInstrument ''synth1'' example_state)))
        = [[example_clip ''c1'' ''p1'' 0],
           [example_clip ''c2'' ''p2'' 4, example_clip ''c3'' ''ghost'' 8]]"
proof -
  note k = removeInstrument_removes_patterns [of "''synth1''" example_state]
  have i: "pat_instrumentId example_pattern1 = ''synth1''" by (simp add: example_pattern1_def)
  have a: "project_patterns (project (removeInstrument ''synth1'' example_state)) = [example_pattern2]"
    using k by (simp add: project_defs)
  have b: "schedulePattern (engine (removeInstrument ''synth1'' example_state)) example_pattern1 0
        = engine (removeInstrument ''synth1'' example_state)"
    using k i by blast
  have c: "map track_clips (project_tracks (project (removeInstrument ''synth1'' example_state)))
        = [[example_clip ''c1'' ''p1'' 0],
           [example_clip ''c2'' ''p2'' 4, example_clip ''c3'' ''ghost'' 8]]"
    using k by (simp add: example_state_def example_project_def example_tracks_def
          example_track1_def example_track2_def)
  show ?thesis using i a b c by blast
qed

subsection \<open>Pause and play\<close>

lemma clip_callback_view:
  assumes "sched_view e = sched_view e'"
  shows "sched_view (clip_callback patterns bpm track channel clip e)
       = sched_view (clip_callback patterns bpm track channel clip e')"
  using assms by (auto simp: sched_view_def clip_callback_def Let_def split: option.split)

lemma clips_forEach_view:
  "sched_view e = sched_view e' \<Longrightarrow>
   sched_view (clips_forEach patterns bpm track channel clips e)
     = sched_view (clips_forEach patterns bpm track channel clips e')"
proof (induction clips arbitrary: e e')
  case Nil
  then show ?case by simp
next
  case (Cons c cs)
  show ?case using Cons.IH [OF clip_callback_view [OF Cons.prems]] by simp
qed

lemma track_callback_view:
  assumes "sched_view e = sched_view e'"
  shows "sched_view (track_callback patterns bpm track e)
       = sched_view (track_callback patterns bpm track e')"
proof -
  have "trackChannels e = trackChannels e'" using assms by (simp add: sched_view_def)
  then show ?thesis using clips_forEach_view [OF assms] assms
    by (simp add: track_callback_def Let_def)
qed

lemma tracks_forEach_view:
  "sched_view e = sched_view e' \<Longrightarrow>
   sched_view (tracks_forEach patterns bpm tracks e) = sched_view (tracks_forEach patterns bpm tracks e')"
proof (induction tracks arbitrary: e e')
  case Nil
  then show ?case by simp
next
  case (Cons t ts)
  show ?case using Cons.IH [OF track_callback_view [OF Cons.prems]] by simp
qed

lemma schedulePlaylist_view:
  assumes "instruments e = instruments e'" "trackChannels e = trackChannels e'"
    "audioBuffers e = audioBuffers e'"
  shows "playlistParts (schedulePlaylist e tracks patterns bpm)
           = playlistParts (schedulePlaylist e' tracks patterns bpm)
       \<and> audioPlayers (schedulePlaylist e tracks patterns bpm)
           = audioPlayers (schedulePlaylist e' tracks patterns bpm)"
proof -
  have "sched_view (clearPlaylist e) = sched_view (clearPlaylist e')"
    using assms by (simp add: sched_view_def)
  from tracks_forEach_view [OF this, of patterns bpm tracks]
  show ?thesis by (simp add: schedulePlaylist_def sched_view_def)
qed

lemma transport_clear_frame [simp]:
  "tt_position (transport_clear i tt) = tt_position tt"
  "tt_state (transport_clear i tt) = tt_state tt"
  by (simp_all add: transport_clear_def)

lemma fold_transport_clear_frame [simp]:
  "tt_position (fold transport_clear ids tt) = tt_position tt"
  "tt_state (fold transport_clear ids tt) = tt_state tt"
  by (induction ids arbitrary: tt) simp_all

lemma clearAutomation_transport [simp]:
  "tt_position (toneTransport (clearAutomation e)) = tt_position (toneTransport e)"
  "tt_state (toneTransport (clearAutomation e)) = tt_state (toneTransport e)"
  by (simp_all add: clearAutomation_def)

lemma clip_callback_transport [simp]:
  "toneTransport (clip_callback patterns bpm track channel clip e) = toneTransport e"
  by (simp add: clip_callback_def Let_def split: option.split)

lemma clips_forEach_transport [simp]:
  "toneTransport (clips_forEach patterns bpm track channel clips e) = toneTransport e"
  by (induction clips arbitrary: e) simp_all

lemma tracks_forEach_transport [simp]:
  "toneTransport (tracks_forEach patterns bpm tracks e) = toneTransport e"
  by (induction tracks arbitrary: e) (simp_all add: track_callback_def Let_def)

lemma schedulePlaylist_transport [simp]:
  "tt_position (toneTransport (schedulePlaylist e tracks patterns bpm)) = tt_position (toneTransport e)"
  "tt_state (toneTransport (schedulePlaylist e tracks patterns bpm)) = tt_state (toneTransport e)"
  by (simp_all add: schedulePlaylist_def clearPlaylist_def)

lemma points_forEach_transport [simp]:
  "tt_position (toneTransport (points_forEach bpm lane channel ps e)) = tt_position (toneTransport e)"
  "tt_state (toneTransport (points_forEach bpm lane channel ps e)) = tt_state (toneTransport e)"
  by (induction ps arbitrary: e) (simp_all add: Let_def transport_schedule_def split: prod.split)

lemma lanes_forEach_transport [simp]:
  "tt_position (toneTransport (lanes_forEach bpm lanes e)) = tt_position (toneTransport e)"
  "tt_state (toneTransport (lanes_forEach bpm lanes e)) = tt_state (toneTransport e)"
  by (induction lanes arbitrary: e) (simp_all add: lane_callback_def Let_def)

lemma scheduleAutomation_frame [simp]:
  "tt_position (toneTransport (scheduleAutomation e lanes tracks bpm)) = tt_position (toneTransport e)"
  "instruments (scheduleAutomation e lanes tracks bpm) = instruments e"
  "trackChannels (scheduleAutomation e lanes tracks bpm) = trackChannels e"
  "playlistParts (scheduleAutomation e lanes tracks bpm) = playlistParts e"
  "audioPlayers (scheduleAutomation e lanes tracks bpm) = audioPlayers e"
  by (simp_all add: scheduleAutomation_def)

lemma audioBuffers_automation [simp]:
  "audioBuffers (points_forEach bpm lane channel ps e) = audioBuffers e"
  by (induction ps arbitrary: e) (simp_all add: Let_def split: prod.split)

lemma audioBuffers_lanes [simp]:
  "audioBuffers (lanes_forEach bpm lanes e) = audioBuffers e"
  by (induction lanes arbitrary: e) (simp_all add: lane_callback_def Let_def)

lemma schedulePlaylist_frame [simp]:
  "instruments (schedulePlaylist e tracks patterns bpm) = instruments e"
  "trackChannels (schedulePlaylist e tracks patterns bpm) = trackChannels e"
  "audioBuffers (schedulePlaylist e tracks patterns bpm) = audioBuffers e"
  by (simp_all add: schedulePlaylist_def)

lemma play_engine_view:
  "instruments (engine (play s)) = instruments (engine s)"
  "trackChannels (engine (play s)) = trackChannels (engine s)"
  "audioBuffers (engine (play s)) = audioBuffers (engine s)"
  "playlistParts (engine (play s)) = playlistParts (schedulePlaylist (engine s)
      (project_tracks (project s)) (project_patterns (project s)) (project_bpm (project s)))"
  "audioPlayers (engine (play s)) = audioPlayers (schedulePlaylist (engine s)
      (project_tracks (project s)) (project_patterns (project s)) (project_bpm (project s)))"
  "project (play s) = project s"
  "currentBeat (transport (play s)) = currentBeat (transport s)"
  "isPlaying (transport (play s))"
  "tt_state (toneTransport (engine (play s))) = Started"
  "tt_position (toneTransport (engine (play s))) = tt_position (toneTransport (engine s))"
  by (simp_all add: play_def Let_def engine_play_def scheduleAutomation_def transport_start_def)

lemma pause_view:
  "instruments (engine (pause s)) = instruments (engine s)"
  "trackChannels (engine (pause s)) = trackChannels (engine s)"
  "audioBuffers (engine (pause s)) = audioBuffers (engine s)"
  "playlistParts (engine (pause s)) = playlistParts (engine s)"
  "audioPlayers (engine (pause s)) = audioPlayers (engine s)"
  "tt_timeline (toneTransport (engine (pause s))) = tt_timeline (toneTransport (engine s))"
  "automationEventIds (engine (pause s)) = automationEventIds (engine s)"
  "project (pause s) = project s"
  "currentBeat (transport (pause s)) = currentBeat (transport s)"
  "tt_position (toneTransport (engine (pause s))) = tt_position (toneTransport (engine s))"
  by (simp_all add: pause_def engine_pause_def transport_pause_def)

lemma example_play_parts:
  "playlistParts (engine (play example_state)) = [example_part1, example_part2]"
  using example_schedule_parts
  by (simp add: play_engine_view example_state_def example_project_def)

text \<open>
  Claim C10, as stated: \<^verbatim>\<open>play()\<close> from the paused state resumes without rebuilding or
  resubmitting the schedule, the submitted events being unchanged by the pause/play pair.
  \<^verbatim>\<open>play()\<close> always rebuilds: in the state reached by starting playback, adding a note
  and pausing, the submitted parts are those built before the edit, and \<^verbatim>\<open>play()\<close>
  replaces them by parts built from the edited project; and even with no edit the
  automation events are submitted again, under new identifiers.
\<close>

theorem pause_play_counterexample:
  "tt_state (toneTransport (engine example_paused_state)) = Paused
   \<and> \<not> isPlaying (transport example_paused_state)
   \<and> playlistParts (engine example_paused_state) = [example_part1, example_part2]
   \<and> playlistParts (engine (play example_paused_state))
       = [example_part1,
          \<lparr>pp_instrument = 2,
           pp_events = [\<lparr>cne_time = 2, cne_note = ''E4'', cne_duration = 1 / 2, cne_velocity = 1\<rparr>,
                        \<lparr>cne_time = 5 / 2, cne_note = ''E4'', cne_duration = 1 / 2, cne_velocity = 1\<rparr>,
                        \<lparr>cne_time = 3, cne_note = ''G4'', cne_duration = 1 / 8,
                          cne_velocity = 100 / 127\<rparr>],
           pp_start = 0\<rparr>]
   \<and> playlistParts (engine (play example_paused_state)) \<noteq> playlistParts (engine example_paused_state)
   \<and> automationEventIds (engine (pause (play example_state))) = [0]
   \<and> automationEventIds (engine (play (pause (play example_state)))) = [1]"
proof -
  have a: "tt_state (toneTransport (engine example_paused_state)) = Paused"
    by (simp add: example_paused_state_def pause_def engine_pause_def transport_pause_def
          addNote_def Let_def play_engine_view)
  have b: "\<not> isPlaying (transport example_paused_state)"
    by (simp add: example_paused_state_def pause_def)
  have c: "playlistParts (engine example_paused_state) = [example_part1, example_part2]"
    using example_play_parts by (simp add: example_paused_state_def pause_view addNote_def Let_def)
  have d: "playlistParts (engine (play example_paused_state))
       = [example_part1,
          \<lparr>pp_instrument = 2,
           pp_events = [\<lparr>cne_time = 2, cne_note = ''E4'', cne_duration = 1 / 2, cne_velocity = 1\<rparr>,
                        \<lparr>cne_time = 5 / 2, cne_note = ''E4'', cne_duration = 1 / 2, cne_velocity = 1\<rparr>,
                        \<lparr>cne_time = 3, cne_note = ''G4'', cne_duration = 1 / 8,
                          cne_velocity = 100 / 127\<rparr>],
           pp_start = 0\<rparr>]"
    by (simp add: play_engine_view example_paused_state_def pause_view addNote_def Let_def
          project_defs example_defs schedule_defs example_soft_note_def)
  have e: "playlistParts (engine (play example_paused_state)) \<noteq> playlistParts (engine example_paused_state)"
    unfolding c d by (simp add: example_part2_def)
  have f: "automationEventIds (engine (pause (play example_state))) = [0]"
    by (simp add: pause_view play_def Let_def engine_play_def state_defs example_defs
          schedule_defs automation_defs)
  have g: "automationEventIds (engine (play (pause (play example_state)))) = [1]"
    by (simp add: pause_def play_def Let_def engine_play_def engine_pause_def transport_pause_def
          transport_start_def transport_clear_def state_defs example_defs schedule_defs automation_defs)
  show ?thesis using a b c d e f g by blast
qed

lemma fold_transport_clear_timeline:
  "tt_timeline (fold transport_clear ids tt)
     = filter (\<lambda>e. te_id e \<notin> set ids) (tt_timeline tt)"
  by (induction ids arbitrary: tt) (simp_all add: transport_clear_def conj_commute)

lemma fold_transport_clear_nextId [simp]:
  "tt_nextId (fold transport_clear ids tt) = tt_nextId tt"
  by (induction ids arbitrary: tt) (simp_all add: transport_clear_def)

lemma automationEventIds_clip_callback [simp]:
  "automationEventIds (clip_callback patterns bpm track channel clip e) = automationEventIds e"
  by (simp add: clip_callback_def Let_def split: option.split)

lemma automationEventIds_clips_forEach [simp]:
  "automationEventIds (clips_forEach patterns bpm track channel clips e) = automationEventIds e"
  by (induction clips arbitrary: e) simp_all

lemma automationEventIds_tracks_forEach [simp]:
  "automationEventIds (tracks_forEach patterns bpm tracks e) = automationEventIds e"
  by (induction tracks arbitrary: e) (simp_all add: track_callback_def Let_def)

lemma number_events_Nil [simp]: "number_events n [] = []"
  by (simp add: number_events_def)

lemma number_events_Cons:
  "number_events n ((time, cb) # xs)
     = \<lparr>te_id = n, te_time = time, te_callback = cb\<rparr> # number_events (Suc n) xs"
  by (simp add: number_events_def)

lemma number_events_append:
  "number_events n (xs @ ys) = number_events n xs @ number_events (n + length xs) ys"
  by (simp add: number_events_def enumerate_append_eq)

lemma upt_shift: "[n..<Suc (n + k)] = n # [Suc n..<Suc (n + k)]"
  by (simp add: upt_conv_Cons)

lemma points_forEach_nextId:
  "tt_nextId (toneTransport (points_forEach bpm lane channel ps e))
     = tt_nextId (toneTransport e) + length ps"
  by (induction ps arbitrary: e) (simp_all add: Let_def transport_schedule_def split: prod.split)

lemma points_forEach_ids:
  "automationEventIds (points_forEach bpm lane channel ps e)
     = automationEventIds e @ [tt_nextId (toneTransport e) ..< tt_nextId (toneTransport e) + length ps]"
proof (induction ps arbitrary: e)
  case Nil
  then show ?case by simp
next
  case (Cons p ps)
  show ?case
    by (simp add: Cons.IH Let_def transport_schedule_def upt_shift split: prod.split del: upt_Suc)
qed

lemma points_forEach_timeline:
  "tt_timeline (toneTransport (points_forEach bpm lane channel ps e))
     = tt_timeline (toneTransport e)
       @ number_events (tt_nextId (toneTransport e))
           (map (\<lambda>point. (Seconds (beatsToSeconds bpm (pt_time point)),
                          ParamSet (lane_targetParam lane) (pt_value point) channel
                            (lane_targetEffectId lane))) ps)"
proof (induction ps arbitrary: e)
  case Nil
  then show ?case by simp
next
  case (Cons p ps)
  show ?case
    by (simp add: Cons.IH Let_def transport_schedule_def number_events_Cons split: prod.split)
qed

lemma lane_callback_nextId:
  "tt_nextId (toneTransport (lane_callback bpm lane e))
     = tt_nextId (toneTransport e) + length (lane_param_sets (trackChannels e) bpm lane)"
  by (auto simp: lane_callback_def lane_param_sets_def Let_def points_forEach_nextId)

lemma lane_callback_ids:
  "automationEventIds (lane_callback bpm lane e)
     = automationEventIds e @ [tt_nextId (toneTransport e) ..<
          tt_nextId (toneTransport e) + length (lane_param_sets (trackChannels e) bpm lane)]"
  by (auto simp: lane_callback_def lane_param_sets_def Let_def points_forEach_ids)

lemma lane_callback_timeline:
  "tt_timeline (toneTransport (lane_callback bpm lane e))
     = tt_timeline (toneTransport e)
       @ number_events (tt_nextId (toneTransport e)) (lane_param_sets (trackChannels e) bpm lane)"
  by (auto simp: lane_callback_def lane_param_sets_def Let_def points_forEach_timeline)

lemma automation_param_sets_Cons:
  "automation_param_sets channels bpm (l # ls)
     = lane_param_sets channels bpm l @ automation_param_sets channels bpm ls"
  by (simp add: automation_param_sets_def)

lemma lanes_forEach_nextId:
  "tt_nextId (toneTransport (lanes_forEach bpm lanes e))
     = tt_nextId (toneTransport e) + length (automation_param_sets (trackChannels e) bpm lanes)"
proof (induction lanes arbitrary: e)
  case Nil
  then show ?case by (simp add: automation_param_sets_def)
next
  case (Cons l ls)
  show ?case
    by (simp add: Cons.IH lane_callback_nextId automation_param_sets_Cons)
qed

lemma upt_split: "[n..<n + (a + b)] = [n..<n + a] @ [n + a..<n + a + b]"
  using upt_add_eq_append [of n "n + a" b] by (simp add: add.assoc)

lemma lanes_forEach_ids:
  "automationEventIds (lanes_forEach bpm lanes e)
     = automationEventIds e @ [tt_nextId (toneTransport e) ..<
          tt_nextId (toneTransport e) + length (automation_param_sets (trackChannels e) bpm lanes)]"
proof (induction lanes arbitrary: e)
  case Nil
  then show ?case by (simp add: automation_param_sets_def)
next
  case (Cons l ls)
  define n where "n = tt_nextId (toneTransport e)"
  define a where "a = length (lane_param_sets (trackChannels e) bpm l)"
  define b where "b = length (automation_param_sets (trackChannels e) bpm ls)"
  have "automationEventIds (lanes_forEach bpm (l # ls) e)
      = automationEventIds (lanes_forEach bpm ls (lane_callback bpm l e))" by simp
  also have "\<dots> = (automationEventIds e @ [n..<n + a]) @ [n + a..<n + a + b]"
    by (simp add: Cons.IH lane_callback_ids lane_callback_nextId n_def a_def b_def)
  also have "\<dots> = automationEventIds e @ [n..<n + (a + b)]"
    by (simp only: upt_split append_assoc)
  finally show ?case
    by (simp add: automation_param_sets_Cons n_def a_def b_def)
qed

lemma lanes_forEach_timeline:
  "tt_timeline (toneTransport (lanes_forEach bpm lanes e))
     = tt_timeline (toneTransport e)
       @ number_events (tt_nextId (toneTransport e))
           (automation_param_sets (trackChannels e) bpm lanes)"
proof (induction lanes arbitrary: e)
  case Nil
  then show ?case by (simp add: automation_param_sets_def)
next
  case (Cons l ls)
  show ?case
    by (simp add: Cons.IH lane_callback_timeline lane_callback_nextId automation_param_sets_Cons
          number_events_append)
qed

lemma play_automation:
  "automationEventIds (engine (play s))
     = [tt_nextId (toneTransport (engine s)) ..<
          tt_nextId (toneTransport (engine s))
            + length (automation_param_sets (trackChannels (engine s)) (project_bpm (project s))
                        (project_automationLanes (project s)))]
   \<and> tt_timeline (toneTransport (engine (play s)))
     = filter (\<lambda>e. te_id e \<notin> set (automationEventIds (engine s)))
         (tt_timeline (toneTransport (engine s)))
       @ number_events (tt_nextId (toneTransport (engine s)))
           (automation_param_sets (trackChannels (engine s)) (project_bpm (project s))
              (project_automationLanes (project s)))"
proof -
  define e1 where "e1 = clearAutomation (schedulePlaylist (engine s) (project_tracks (project s))
      (project_patterns (project s)) (project_bpm (project s)))"
  have i0: "automationEventIds (schedulePlaylist (engine s) (project_tracks (project s))
      (project_patterns (project s)) (project_bpm (project s))) = []"
    by (simp add: schedulePlaylist_def clearPlaylist_def clearAutomation_def)
  have t0: "tt_timeline (toneTransport (schedulePlaylist (engine s) (project_tracks (project s))
      (project_patterns (project s)) (project_bpm (project s))))
      = filter (\<lambda>e. te_id e \<notin> set (automationEventIds (engine s)))
          (tt_timeline (toneTransport (engine s)))"
    by (simp add: schedulePlaylist_def clearPlaylist_def clearAutomation_def
          fold_transport_clear_timeline)
  have n0: "tt_nextId (toneTransport (schedulePlaylist (engine s) (project_tracks (project s))
      (project_patterns (project s)) (project_bpm (project s))))
      = tt_nextId (toneTransport (engine s))"
    by (simp add: schedulePlaylist_def clearPlaylist_def clearAutomation_def)
  have t: "tt_timeline (toneTransport e1)
      = filter (\<lambda>e. te_id e \<notin> set (automationEventIds (engine s)))
          (tt_timeline (toneTransport (engine s)))"
    and n: "tt_nextId (toneTransport e1) = tt_nextId (toneTransport (engine s))"
    and i: "automationEventIds e1 = []"
    and c: "trackChannels e1 = trackChannels (engine s)"
    unfolding e1_def by (simp_all add: clearAutomation_def i0 t0 n0)
  have "engine (play s) = engine_play (lanes_forEach (project_bpm (project s))
      (project_automationLanes (project s)) e1)"
    by (simp add: play_def Let_def scheduleAutomation_def e1_def)
  then show ?thesis
    by (simp add: engine_play_def transport_start_def lanes_forEach_ids lanes_forEach_timeline
          t n i c)
qed

lemma pause_nextId:
  "tt_nextId (toneTransport (engine (pause s))) = tt_nextId (toneTransport (engine s))"
  by (simp add: pause_def engine_pause_def transport_pause_def)

lemma play_nextId:
  "tt_nextId (toneTransport (engine (play s)))
     = tt_nextId (toneTransport (engine s))
       + length (automation_param_sets (trackChannels (engine s)) (project_bpm (project s))
                   (project_automationLanes (project s)))"
proof -
  define e1 where "e1 = clearAutomation (schedulePlaylist (engine s) (project_tracks (project s))
      (project_patterns (project s)) (project_bpm (project s)))"
  have n: "tt_nextId (toneTransport e1) = tt_nextId (toneTransport (engine s))"
    and c: "trackChannels e1 = trackChannels (engine s)"
    unfolding e1_def by (simp_all add: clearAutomation_def schedulePlaylist_def clearPlaylist_def)
  have "engine (play s) = engine_play (lanes_forEach (project_bpm (project s))
      (project_automationLanes (project s)) e1)"
    by (simp add: play_def Let_def scheduleAutomation_def e1_def)
  then show ?thesis
    by (simp add: engine_play_def transport_start_def lanes_forEach_nextId n c)
qed

text \<open>
  Claim C10, amended.  \<^verbatim>\<open>pause()\<close> leaves the submitted parts and transport events as they
  are.  \<^verbatim>\<open>play()\<close> does not distinguish a paused from a stopped transport: after
  \<^verbatim>\<open>pause()\<close> it starts the backend clock again from the position it was frozen at (the
  store's current beat and the backend position are unchanged by the pair, the project is
  unchanged), but it always discards what was submitted and submits the schedule built
  from the current project: the playlist parts and players are those of a build over the
  current tracks and patterns; the automation events submitted before are removed from
  the transport and the events of the current lanes are scheduled under new identifiers.
  When nothing was edited since the last \<^verbatim>\<open>play()\<close>, the rebuilt parts and players equal
  the previous ones.
\<close>

theorem pause_play_rebuilds_schedule:
  "playlistParts (engine (pause s)) = playlistParts (engine s)
   \<and> tt_timeline (toneTransport (engine (pause s))) = tt_timeline (toneTransport (engine s))
   \<and> currentBeat (transport (play (pause s))) = currentBeat (transport s)
   \<and> tt_position (toneTransport (engine (play (pause s)))) = tt_position (toneTransport (engine s))
   \<and> tt_state (toneTransport (engine (play (pause s)))) = Started
   \<and> isPlaying (transport (play (pause s)))
   \<and> project (play (pause s)) = project s
   \<and> playlistParts (engine (play (pause s)))
        = playlistParts (schedulePlaylist (engine s) (project_tracks (project s))
            (project_patterns (project s)) (project_bpm (project s)))
   \<and> audioPlayers (engine (play (pause s)))
        = audioPlayers (schedulePlaylist (engine s) (project_tracks (project s))
            (project_patterns (project s)) (project_bpm (project s)))
   \<and> playlistParts (engine (play (pause (play s)))) = playlistParts (engine (play s))
   \<and> audioPlayers (engine (play (pause (play s)))) = audioPlayers (engine (play s))
   \<and> automationEventIds (engine (play (pause s)))
        = [tt_nextId (toneTransport (engine s)) ..<
             tt_nextId (toneTransport (engine s))
               + length (automation_param_sets (trackChannels (engine s)) (project_bpm (project s))
                           (project_automationLanes (project s)))]
   \<and> tt_timeline (toneTransport (engine (play (pause s))))
        = filter (\<lambda>e. te_id e \<notin> set (automationEventIds (engine s)))
            (tt_timeline (toneTransport (engine s)))
          @ number_events (tt_nextId (toneTransport (engine s)))
              (automation_param_sets (trackChannels (engine s)) (project_bpm (project s))
                 (project_automationLanes (project s)))"
proof -
  have v: "playlistParts (schedulePlaylist (engine (pause s')) tracks patterns bpm)
           = playlistParts (schedulePlaylist (engine s') tracks patterns bpm)
       \<and> audioPlayers (schedulePlaylist (engine (pause s')) tracks patterns bpm)
           = audioPlayers (schedulePlaylist (engine s') tracks patterns bpm)"
    for s' tracks patterns bpm
    by (rule schedulePlaylist_view) (simp_all add: pause_view)
  have w: "playlistParts (schedulePlaylist (engine (play s)) tracks patterns bpm)
           = playlistParts (schedulePlaylist (engine s) tracks patterns bpm)
       \<and> audioPlayers (schedulePlaylist (engine (play s)) tracks patterns bpm)
           = audioPlayers (schedulePlaylist (engine s) tracks patterns bpm)"
    for tracks patterns bpm
    by (rule schedulePlaylist_view) (simp_all add: play_engine_view)
  have a: "automationEventIds (engine (play (pause s)))
        = [tt_nextId (toneTransport (engine s)) ..<
             tt_nextId (toneTransport (engine s))
               + length (automation_param_sets (trackChannels (engine s)) (project_bpm (project s))
                           (project_automationLanes (project s)))]
   \<and> tt_timeline (toneTransport (engine (play (pause s))))
        = filter (\<lambda>e. te_id e \<notin> set (automationEventIds (engine s)))
            (tt_timeline (toneTransport (engine s)))
          @ number_events (tt_nextId (toneTransport (engine s)))
              (automation_param_sets (trackChannels (engine s)) (project_bpm (project s))
                 (project_automationLanes (project s)))"
    using play_automation [of "pause s"] by (simp add: pause_view pause_nextId)
  show ?thesis
    using a by (simp add: play_engine_view pause_view v w)
qed

theorem pause_play_rebuilds_schedule_witness:
  "playlistParts (engine (play (pause (play example_state)))) = [example_part1, example_part2]
   \<and> playlistParts (engine (play example_state)) = [example_part1, example_part2]
   \<and> currentBeat (transport (play (pause (play example_state)))) = 0
   \<and> tt_state (toneTransport (engine (play (pause (play example_state))))) = Started
   \<and> automationEventIds (engine (play example_state)) = [0]
   \<and> tt_timeline (toneTransport (engine (play example_state)))
        = [\<lparr>te_id = 0, te_time = Seconds 1, te_callback = ParamSet Tempo (1 / 2) None None\<rparr>]
   \<and> automationEventIds (engine (play (pause (play example_state)))) = [1]
   \<and> tt_timeline (toneTransport (engine (play (pause (play example_state)))))
        = [\<lparr>te_id = 1, te_time = Seconds 1, te_callback = ParamSet Tempo (1 / 2) None None\<rparr>]"
proof -
  note k = pause_play_rebuilds_schedule [of "play example_state"]
  have p: "playlistParts (engine (play (pause (play example_state)))) = [example_part1, example_part2]"
    using pause_play_rebuilds_schedule [of example_state] example_play_parts by simp
  have b: "currentBeat (transport (play (pause (play example_state)))) = 0"
    using k by (simp add: play_engine_view example_state_def)
  have st: "tt_state (toneTransport (engine (play (pause (play example_state))))) = Started"
    using k by simp
  have aps: "automation_param_sets (trackChannels example_engine) 120
        [example_lane, example_tempo_lane]
      = [(Seconds 1, ParamSet Tempo (1 / 2) None None)]"
    by (simp add: automation_param_sets_def lane_param_sets_def example_engine_def
          example_lane_def example_points_def example_tempo_lane_def beatsToSeconds_def)
  have e0: "engine example_state = example_engine"
    "project_bpm (project example_state) = 120"
    "project_automationLanes (project example_state) = [example_lane, example_tempo_lane]"
    by (simp_all add: example_state_def example_project_def)
  have n0: "tt_nextId (toneTransport example_engine) = 0"
    "tt_timeline (toneTransport example_engine) = []"
    "automationEventIds example_engine = []"
    by (simp_all add: example_engine_def)
  have i1: "automationEventIds (engine (play example_state)) = [0]"
    and t1: "tt_timeline (toneTransport (engine (play example_state)))
        = [\<lparr>te_id = 0, te_time = Seconds 1, te_callback = ParamSet Tempo (1 / 2) None None\<rparr>]"
    using play_automation [of example_state]
    by (simp_all add: e0 n0 aps number_events_def)
  have n1: "tt_nextId (toneTransport (engine (play example_state))) = 1"
    by (simp add: play_nextId e0 n0 aps)
  have i2: "automationEventIds (engine (play (pause (play example_state)))) = [1]"
    and t2: "tt_timeline (toneTransport (engine (play (pause (play example_state)))))
        = [\<lparr>te_id = 1, te_time = Seconds 1, te_callback = ParamSet Tempo (1 / 2) None None\<rparr>]"
    using k by (simp_all add: play_engine_view e0 n1 i1 t1 aps number_events_def)
  show ?thesis using p b st i1 t1 i2 t2 example_play_parts by simp
qed

end
